theory Spec2Isabelle
  imports Complex_Main
begin

section \<open>The PID cuts of the correlation studies analysis (AliCSPIDCuts.cxx)\<close>

text \<open>
  A shallow embedding of the configuration and truth-acceptance code of
  \<^verbatim>\<open>AliCSPIDCuts.cxx\<close>. Conventions:
  \<^item> \<^verbatim>\<open>Int_t\<close> values (preset codes, parameter ids, labels, PDG codes) are \<open>int\<close>; the only
    arithmetic on them is \<^verbatim>\<open>pcode + 1\<close> for \<open>1 \<le> pcode \<le> 9\<close>, which cannot overflow;
  \<^item> \<^verbatim>\<open>Float_t\<close>/\<^verbatim>\<open>Double_t\<close> values (momenta, sigma bounds) are \<open>real\<close>: the code only
    assigns constants to them and compares them with \<open><\<close>; rounding and NaN are outside
    the model;
  \<^item> a \<^verbatim>\<open>TBits\<close> is the set of its set bit numbers;
  \<^item> a method that mutates the object and returns \<^verbatim>\<open>Bool_t\<close> takes the object and returns
    the pair of the result and the updated object;
  \<^item> \<^verbatim>\<open>AliError\<close>/\<^verbatim>\<open>AliInfo\<close> logging and the QA histograms are not part of the state.
\<close>

subsection \<open>Enumerations\<close>

text \<open>The values of \<^verbatim>\<open>AliPID::EParticleType\<close> that the file names.\<close>

datatype EParticleType = kElectron | kMuon | kPion | kKaon | kProton | kUnknown

text \<open>The four cut categories, the bit numbers of \<^verbatim>\<open>fCutsEnabledMask\<close>.\<close>

datatype cutsIds = kITSdEdxSigmaCut | kTPCdEdxSigmaCut | kTOFSigmaCut | kTPCTOF2DSigmaCut

text \<open>The parameter ids, in the order of the \<^verbatim>\<open>switch\<close> of \<^verbatim>\<open>SetCutAndParams\<close>.\<close>

datatype cutsParametersIds =
    kPMinCutParam
  | kPMaxCutParam
  | kITSdEdxSigmaCutParam_e
  | kITSdEdxSigmaCutParam_mu
  | kITSdEdxSigmaCutParam_pi
  | kITSdEdxSigmaCutParam_k
  | kITSdEdxSigmaCutParam_p
  | kTPCdEdxSigmaCutParam_e
  | kTPCdEdxSigmaCutParam_mu
  | kTPCdEdxSigmaCutParam_pi
  | kTPCdEdxSigmaCutParam_k
  | kTPCdEdxSigmaCutParam_p
  | kTOFSigmaCutParam_e
  | kTOFSigmaCutParam_mu
  | kTOFSigmaCutParam_pi
  | kTOFSigmaCutParam_k
  | kTOFSigmaCutParam_p
  | kTPCTOFCutParam

text \<open>
  Modelled from the spec: the declaration of the enumeration \<^verbatim>\<open>cutsParametersIds\<close> is in
  \<^verbatim>\<open>AliCSPIDCuts.h\<close>, which is not among the sources. The spec describes a flat
  parameter-ID space covering the momentum min/max codes, five per-species ITS codes, five
  per-species TPC codes, five per-species TOF codes and one combined TPC+TOF mode code;
  the cast \<^verbatim>\<open>cutsParametersIds(paramID)\<close> numbers them from 0 in that order. Any other
  integer reaches the \<^verbatim>\<open>default\<close> label of a \<^verbatim>\<open>switch\<close>, which is \<open>None\<close> here.
\<close>

definition cutsParametersIds_of :: "int \<Rightarrow> cutsParametersIds option" where
  "cutsParametersIds_of paramID =
    (if paramID = 0 then Some kPMinCutParam
     else if paramID = 1 then Some kPMaxCutParam
     else if paramID = 2 then Some kITSdEdxSigmaCutParam_e
     else if paramID = 3 then Some kITSdEdxSigmaCutParam_mu
     else if paramID = 4 then Some kITSdEdxSigmaCutParam_pi
     else if paramID = 5 then Some kITSdEdxSigmaCutParam_k
     else if paramID = 6 then Some kITSdEdxSigmaCutParam_p
     else if paramID = 7 then Some kTPCdEdxSigmaCutParam_e
     else if paramID = 8 then Some kTPCdEdxSigmaCutParam_mu
     else if paramID = 9 then Some kTPCdEdxSigmaCutParam_pi
     else if paramID = 10 then Some kTPCdEdxSigmaCutParam_k
     else if paramID = 11 then Some kTPCdEdxSigmaCutParam_p
     else if paramID = 12 then Some kTOFSigmaCutParam_e
     else if paramID = 13 then Some kTOFSigmaCutParam_mu
     else if paramID = 14 then Some kTOFSigmaCutParam_pi
     else if paramID = 15 then Some kTOFSigmaCutParam_k
     else if paramID = 16 then Some kTOFSigmaCutParam_p
     else if paramID = 17 then Some kTPCTOFCutParam
     else None)"

subsection \<open>TBits\<close>

definition SetBitNumber :: "'a \<Rightarrow> 'a set \<Rightarrow> 'a set" where
  "SetBitNumber b m = insert b m"

definition ResetBitNumber :: "'a \<Rightarrow> 'a set \<Rightarrow> 'a set" where
  "ResetBitNumber b m = m - {b}"

definition TestBitNumber :: "'a set \<Rightarrow> 'a \<Rightarrow> bool" where
  "TestBitNumber m b = (b \<in> m)"

definition CountBits :: "'a set \<Rightarrow> nat" where
  "CountBits m = card m"

subsection \<open>The object\<close>

text \<open>
  The members inherited from the base class that \<^verbatim>\<open>SetCutAndParams\<close> writes: the
  parameter store, indexed by parameter id, and the descriptor string.
\<close>

record AliCSTrackCutsBase =
  fParameters :: "cutsParametersIds \<Rightarrow> int"
  fCutsString :: string

record AliCSPIDCuts = AliCSTrackCutsBase +
  fMinP :: real
  fMaxP :: real
  fTOFRequired :: bool
  fTPCTOF2Dcut :: bool
  fITSnSigmaAbove :: "EParticleType \<Rightarrow> real"
  fITSnSigmaBelow :: "EParticleType \<Rightarrow> real"
  fTPCnSigmaAbove :: "EParticleType \<Rightarrow> real"
  fTPCnSigmaBelow :: "EParticleType \<Rightarrow> real"
  fTOFnSigmaAbove :: "EParticleType \<Rightarrow> real"
  fTOFnSigmaBelow :: "EParticleType \<Rightarrow> real"
  fCutsEnabledMask :: "cutsIds set"
  fCutsActivatedMask :: "cutsIds set"
  fITSEnabledSpeciesMask :: "EParticleType set"
  fTPCEnabledSpeciesMask :: "EParticleType set"
  fTOFEnabledSpeciesMask :: "EParticleType set"
  fTPCTOF2DEnabledSpeciesMask :: "EParticleType set"
  fTargetSpecies :: EParticleType
  fCutNumber :: int

text \<open>
  The constructor \<^verbatim>\<open>AliCSPIDCuts(name, title, target, cutnumber)\<close>. The base-class part is
  what the base-class constructor left, a parameter here. A brace initialiser such as
  \<^verbatim>\<open>fITSnSigmaAbove{100.0}\<close> sets element 0 (\<open>kElectron\<close>) of the array and zeroes the rest.
\<close>

definition AliCSPIDCuts_new :: "AliCSTrackCutsBase \<Rightarrow> EParticleType \<Rightarrow> int \<Rightarrow> AliCSPIDCuts" where
  "AliCSPIDCuts_new base target cutnumber =
    \<lparr> fParameters = fParameters base,
      fCutsString = fCutsString base,
      fMinP = 0.0,
      fMaxP = 9999.0,
      fTOFRequired = False,
      fTPCTOF2Dcut = False,
      fITSnSigmaAbove = (\<lambda>_. 0)(kElectron := 100.0),
      fITSnSigmaBelow = (\<lambda>_. 0)(kElectron := - 100.0),
      fTPCnSigmaAbove = (\<lambda>_. 0)(kElectron := 100.0),
      fTPCnSigmaBelow = (\<lambda>_. 0)(kElectron := - 100.0),
      fTOFnSigmaAbove = (\<lambda>_. 0)(kElectron := 100.0),
      fTOFnSigmaBelow = (\<lambda>_. 0)(kElectron := - 100.0),
      fCutsEnabledMask = {},
      fCutsActivatedMask = {},
      fITSEnabledSpeciesMask = {},
      fTPCEnabledSpeciesMask = {},
      fTOFEnabledSpeciesMask = {},
      fTPCTOF2DEnabledSpeciesMask = {},
      fTargetSpecies = target,
      fCutNumber = cutnumber \<rparr>"

subsection \<open>The momentum window\<close>

definition SetPMin :: "int \<Rightarrow> AliCSPIDCuts \<Rightarrow> bool \<times> AliCSPIDCuts" where
  "SetPMin pcode s =
    (if pcode = 0 then (True, s\<lparr>fMinP := 0.0\<rparr>)
     else if pcode \<in> {1, 2, 3, 4, 5, 6, 7, 8, 9} then
       (True, s\<lparr>fMinP := real_of_int (pcode + 1) / 10.0\<rparr>)
     else (False, s))"

definition SetPMax :: "int \<Rightarrow> AliCSPIDCuts \<Rightarrow> bool \<times> AliCSPIDCuts" where
  "SetPMax pcode s =
    (if pcode = 0 then (True, s\<lparr>fMaxP := 1000000\<rparr>)
     else if pcode = 1 then (True, s\<lparr>fMaxP := 0.3\<rparr>)
     else if pcode = 2 then (True, s\<lparr>fMaxP := 0.4\<rparr>)
     else if pcode = 3 then (True, s\<lparr>fMaxP := 0.5\<rparr>)
     else if pcode = 4 then (True, s\<lparr>fMaxP := 0.6\<rparr>)
     else if pcode = 5 then (True, s\<lparr>fMaxP := 0.7\<rparr>)
     else if pcode = 6 then (True, s\<lparr>fMaxP := 2.0\<rparr>)
     else if pcode = 7 then (True, s\<lparr>fMaxP := 3.0\<rparr>)
     else if pcode = 8 then (True, s\<lparr>fMaxP := 4.0\<rparr>)
     else (False, s))"

subsection \<open>The ITS band\<close>

text \<open>
  The three statements of one \<^verbatim>\<open>case\<close> of the \<^verbatim>\<open>switch\<close>: the species bit (set, or reset
  for the passive code 0) and the two bounds.
\<close>

definition ITScase :: "EParticleType \<Rightarrow> bool \<Rightarrow> real \<Rightarrow> real \<Rightarrow> AliCSPIDCuts \<Rightarrow> AliCSPIDCuts" where
  "ITScase sid enable nbelow nabove s =
    s\<lparr> fITSEnabledSpeciesMask :=
         (if enable then SetBitNumber sid (fITSEnabledSpeciesMask s)
          else ResetBitNumber sid (fITSEnabledSpeciesMask s)),
       fITSnSigmaBelow := (fITSnSigmaBelow s)(sid := nbelow),
       fITSnSigmaAbove := (fITSnSigmaAbove s)(sid := nabove) \<rparr>"

text \<open>The statements after the \<^verbatim>\<open>switch\<close>: the detector-level bit follows the bit count.\<close>

definition ITSenabled :: "AliCSPIDCuts \<Rightarrow> AliCSPIDCuts" where
  "ITSenabled s =
    (if CountBits (fITSEnabledSpeciesMask s) > 0
     then s\<lparr>fCutsEnabledMask := SetBitNumber kITSdEdxSigmaCut (fCutsEnabledMask s)\<rparr>
     else s\<lparr>fCutsEnabledMask := ResetBitNumber kITSdEdxSigmaCut (fCutsEnabledMask s)\<rparr>)"

definition SetITSdEdxSigmaCut :: "EParticleType \<Rightarrow> int \<Rightarrow> AliCSPIDCuts \<Rightarrow> bool \<times> AliCSPIDCuts" where
  "SetITSdEdxSigmaCut sid dEdxCode s =
    (if dEdxCode = 0 then (True, ITSenabled (ITScase sid False (- 100.0) 100.0 s))
     else if dEdxCode = 1 then (True, ITSenabled (ITScase sid True (- 10.0) 10.0 s))
     else if dEdxCode = 2 then (True, ITSenabled (ITScase sid True (- 6.0) 7.0 s))
     else if dEdxCode = 3 then (True, ITSenabled (ITScase sid True (- 5.0) 5.0 s))
     else if dEdxCode = 4 then (True, ITSenabled (ITScase sid True (- 4.0) 5.0 s))
     else if dEdxCode = 5 then (True, ITSenabled (ITScase sid True (- 3.0) 5.0 s))
     else if dEdxCode = 6 then (True, ITSenabled (ITScase sid True (- 4.0) 4.0 s))
     else if dEdxCode = 7 then (True, ITSenabled (ITScase sid True (- 2.5) 4.0 s))
     else if dEdxCode = 8 then (True, ITSenabled (ITScase sid True (- 2.0) 3.5 s))
     else (False, s))"

subsection \<open>The TPC band\<close>

definition TPCcase :: "EParticleType \<Rightarrow> bool \<Rightarrow> real \<Rightarrow> real \<Rightarrow> AliCSPIDCuts \<Rightarrow> AliCSPIDCuts" where
  "TPCcase sid enable nbelow nabove s =
    s\<lparr> fTPCEnabledSpeciesMask :=
         (if enable then SetBitNumber sid (fTPCEnabledSpeciesMask s)
          else ResetBitNumber sid (fTPCEnabledSpeciesMask s)),
       fTPCnSigmaBelow := (fTPCnSigmaBelow s)(sid := nbelow),
       fTPCnSigmaAbove := (fTPCnSigmaAbove s)(sid := nabove) \<rparr>"

definition TPCenabled :: "AliCSPIDCuts \<Rightarrow> AliCSPIDCuts" where
  "TPCenabled s =
    (if CountBits (fTPCEnabledSpeciesMask s) > 0
     then s\<lparr>fCutsEnabledMask := SetBitNumber kTPCdEdxSigmaCut (fCutsEnabledMask s)\<rparr>
     else s\<lparr>fCutsEnabledMask := ResetBitNumber kTPCdEdxSigmaCut (fCutsEnabledMask s)\<rparr>)"

definition SetTPCdEdxSigmaCut :: "EParticleType \<Rightarrow> int \<Rightarrow> AliCSPIDCuts \<Rightarrow> bool \<times> AliCSPIDCuts" where
  "SetTPCdEdxSigmaCut sid dEdxCode s =
    (if dEdxCode = 0 then (True, TPCenabled (TPCcase sid False (- 100.0) 100.0 s))
     else if dEdxCode = 1 then (True, TPCenabled (TPCcase sid True (- 10.0) 10.0 s))
     else if dEdxCode = 2 then (True, TPCenabled (TPCcase sid True (- 6.0) 7.0 s))
     else if dEdxCode = 3 then (True, TPCenabled (TPCcase sid True (- 5.0) 5.0 s))
     else if dEdxCode = 4 then (True, TPCenabled (TPCcase sid True (- 4.0) 5.0 s))
     else if dEdxCode = 5 then (True, TPCenabled (TPCcase sid True (- 4.0) 4.0 s))
     else if dEdxCode = 6 then (True, TPCenabled (TPCcase sid True (- 3.0) 4.0 s))
     else if dEdxCode = 7 then (True, TPCenabled (TPCcase sid True (- 3.0) 3.0 s))
     else if dEdxCode = 8 then (True, TPCenabled (TPCcase sid True (- 3.0) 5.0 s))
     else if dEdxCode = 9 then (True, TPCenabled (TPCcase sid True (- 2.0) 3.0 s))
     else (False, s))"

subsection \<open>The TOF band\<close>

definition TOFcase :: "EParticleType \<Rightarrow> bool \<Rightarrow> real \<Rightarrow> real \<Rightarrow> AliCSPIDCuts \<Rightarrow> AliCSPIDCuts" where
  "TOFcase sid enable nbelow nabove s =
    s\<lparr> fTOFEnabledSpeciesMask :=
         (if enable then SetBitNumber sid (fTOFEnabledSpeciesMask s)
          else ResetBitNumber sid (fTOFEnabledSpeciesMask s)),
       fTOFnSigmaBelow := (fTOFnSigmaBelow s)(sid := nbelow),
       fTOFnSigmaAbove := (fTOFnSigmaAbove s)(sid := nabove) \<rparr>"

definition TOFenabled :: "AliCSPIDCuts \<Rightarrow> AliCSPIDCuts" where
  "TOFenabled s =
    (if CountBits (fTOFEnabledSpeciesMask s) > 0
     then s\<lparr>fCutsEnabledMask := SetBitNumber kTOFSigmaCut (fCutsEnabledMask s)\<rparr>
     else s\<lparr>fCutsEnabledMask := ResetBitNumber kTOFSigmaCut (fCutsEnabledMask s)\<rparr>)"

definition SetTOFSigmaCut :: "EParticleType \<Rightarrow> int \<Rightarrow> AliCSPIDCuts \<Rightarrow> bool \<times> AliCSPIDCuts" where
  "SetTOFSigmaCut sid tofcode s =
    (if tofcode = 0 then (True, TOFenabled (TOFcase sid False (- 100.0) 100.0 s))
     else if tofcode = 1 then (True, TOFenabled (TOFcase sid True (- 7.0) 7.0 s))
     else if tofcode = 2 then (True, TOFenabled (TOFcase sid True (- 5.0) 5.0 s))
     else if tofcode = 3 then (True, TOFenabled (TOFcase sid True (- 3.0) 5.0 s))
     else if tofcode = 4 then (True, TOFenabled (TOFcase sid True (- 2.0) 3.0 s))
     else if tofcode = 5 then (True, TOFenabled (TOFcase sid True (- 3.0) 3.0 s))
     else (False, s))"

subsection \<open>The combined TPC+TOF mode\<close>

definition TPCTOFenabled :: "AliCSPIDCuts \<Rightarrow> AliCSPIDCuts" where
  "TPCTOFenabled s =
    (if CountBits (fTPCTOF2DEnabledSpeciesMask s) > 0
     then s\<lparr>fCutsEnabledMask := SetBitNumber kTPCTOF2DSigmaCut (fCutsEnabledMask s)\<rparr>
     else s\<lparr>fCutsEnabledMask := ResetBitNumber kTPCTOF2DSigmaCut (fCutsEnabledMask s)\<rparr>)"

definition SetTPCTOFCut :: "int \<Rightarrow> AliCSPIDCuts \<Rightarrow> bool \<times> AliCSPIDCuts" where
  "SetTPCTOFCut tpctofcode s =
    (if tpctofcode = 0 then
       (True, TPCTOFenabled (s\<lparr>fTPCTOF2DEnabledSpeciesMask := {}, fTOFRequired := False\<rparr>))
     else if tpctofcode = 1 then
       (True, TPCTOFenabled (s\<lparr>fTPCTOF2DEnabledSpeciesMask := {}, fTOFRequired := True\<rparr>))
     else if tpctofcode = 2 then
       (True, TPCTOFenabled
          (s\<lparr>fTPCTOF2DEnabledSpeciesMask := fTPCEnabledSpeciesMask s \<inter> fTOFEnabledSpeciesMask s,
             fTOFRequired := False\<rparr>))
     else if tpctofcode = 3 then
       (True, TPCTOFenabled
          (s\<lparr>fTPCTOF2DEnabledSpeciesMask := fTPCEnabledSpeciesMask s \<inter> fTOFEnabledSpeciesMask s,
             fTOFRequired := True\<rparr>))
     else (False, s))"

subsection \<open>The configuration facade\<close>

text \<open>
  Modelled from the spec: \<^verbatim>\<open>UpdateCutsString\<close> is a method of the base class, whose
  implementation is not among the sources. The spec says that it regenerates a canonical
  descriptor string summarizing the active configuration; the rendering of the parameter
  store is the parameter \<open>descr\<close>.
\<close>

definition UpdateCutsString :: "((cutsParametersIds \<Rightarrow> int) \<Rightarrow> string) \<Rightarrow> AliCSPIDCuts \<Rightarrow> AliCSPIDCuts" where
  "UpdateCutsString descr s = s\<lparr>fCutsString := descr (fParameters s)\<rparr>"

text \<open>
  Every \<^verbatim>\<open>case\<close> of \<^verbatim>\<open>SetCutAndParams\<close> has one shape: if the setter accepted the value,
  store it under the parameter id, update the descriptor and return \<^verbatim>\<open>kTRUE\<close>; otherwise
  return \<^verbatim>\<open>kFALSE\<close>. \<open>r\<close> is what the setter returned.
\<close>

definition accepted :: "((cutsParametersIds \<Rightarrow> int) \<Rightarrow> string) \<Rightarrow> cutsParametersIds \<Rightarrow> int
    \<Rightarrow> bool \<times> AliCSPIDCuts \<Rightarrow> bool \<times> AliCSPIDCuts" where
  "accepted descr k value r =
    (if fst r then
       (True, UpdateCutsString descr ((snd r)\<lparr>fParameters := (fParameters (snd r))(k := value)\<rparr>))
     else (False, snd r))"

definition SetCutAndParams :: "((cutsParametersIds \<Rightarrow> int) \<Rightarrow> string) \<Rightarrow> int \<Rightarrow> int
    \<Rightarrow> AliCSPIDCuts \<Rightarrow> bool \<times> AliCSPIDCuts" where
  "SetCutAndParams descr paramID value s =
    (case cutsParametersIds_of paramID of
       Some kPMinCutParam \<Rightarrow>
         accepted descr kPMinCutParam value (SetPMin value s)
     | Some kPMaxCutParam \<Rightarrow>
         accepted descr kPMaxCutParam value (SetPMax value s)
     | Some kITSdEdxSigmaCutParam_e \<Rightarrow>
         accepted descr kITSdEdxSigmaCutParam_e value (SetITSdEdxSigmaCut kElectron value s)
     | Some kITSdEdxSigmaCutParam_mu \<Rightarrow>
         accepted descr kITSdEdxSigmaCutParam_mu value (SetITSdEdxSigmaCut kMuon value s)
     | Some kITSdEdxSigmaCutParam_pi \<Rightarrow>
         accepted descr kITSdEdxSigmaCutParam_pi value (SetITSdEdxSigmaCut kPion value s)
     | Some kITSdEdxSigmaCutParam_k \<Rightarrow>
         accepted descr kITSdEdxSigmaCutParam_k value (SetITSdEdxSigmaCut kKaon value s)
     | Some kITSdEdxSigmaCutParam_p \<Rightarrow>
         accepted descr kITSdEdxSigmaCutParam_p value (SetITSdEdxSigmaCut kProton value s)
     | Some kTPCdEdxSigmaCutParam_e \<Rightarrow>
         accepted descr kTPCdEdxSigmaCutParam_e value (SetTPCdEdxSigmaCut kElectron value s)
     | Some kTPCdEdxSigmaCutParam_mu \<Rightarrow>
         accepted descr kTPCdEdxSigmaCutParam_mu value (SetTPCdEdxSigmaCut kMuon value s)
     | Some kTPCdEdxSigmaCutParam_pi \<Rightarrow>
         accepted descr kTPCdEdxSigmaCutParam_pi value (SetTPCdEdxSigmaCut kPion value s)
     | Some kTPCdEdxSigmaCutParam_k \<Rightarrow>
         accepted descr kTPCdEdxSigmaCutParam_k value (SetTPCdEdxSigmaCut kKaon value s)
     | Some kTPCdEdxSigmaCutParam_p \<Rightarrow>
         accepted descr kTPCdEdxSigmaCutParam_p value (SetTPCdEdxSigmaCut kProton value s)
     | Some kTOFSigmaCutParam_e \<Rightarrow>
         accepted descr kTOFSigmaCutParam_e value (SetTOFSigmaCut kElectron value s)
     | Some kTOFSigmaCutParam_mu \<Rightarrow>
         accepted descr kTOFSigmaCutParam_mu value (SetTOFSigmaCut kMuon value s)
     | Some kTOFSigmaCutParam_pi \<Rightarrow>
         accepted descr kTOFSigmaCutParam_pi value (SetTOFSigmaCut kPion value s)
     | Some kTOFSigmaCutParam_k \<Rightarrow>
         accepted descr kTOFSigmaCutParam_k value (SetTOFSigmaCut kKaon value s)
     | Some kTOFSigmaCutParam_p \<Rightarrow>
         accepted descr kTOFSigmaCutParam_p value (SetTOFSigmaCut kProton value s)
     | Some kTPCTOFCutParam \<Rightarrow>
         accepted descr kTPCTOFCutParam value (SetTPCTOFCut value s)
     | None \<Rightarrow> (False, s))"

subsection \<open>Truth particles\<close>

text \<open>
  What the file reads of a true particle (\<^verbatim>\<open>AliVParticle\<close>) and of a reconstructed track
  (\<^verbatim>\<open>AliVTrack\<close>).
\<close>

record AliVParticle =
  P :: real
  PdgCode :: int

record AliVTrack =
  GetLabel :: int

text \<open>
  The PDG codes of ROOT's \<^verbatim>\<open>TPDGCode.h\<close>, which the file names with the global scope
  operator (\<^verbatim>\<open>::kElectron\<close> is the PDG code, \<^verbatim>\<open>AliPID::kElectron\<close> the species).
\<close>

definition kElectron_pdg :: int where "kElectron_pdg = 11"
definition kPositron :: int where "kPositron = - 11"
definition kMuonMinus :: int where "kMuonMinus = 13"
definition kMuonPlus :: int where "kMuonPlus = - 13"
definition kPiPlus :: int where "kPiPlus = 211"
definition kPiMinus :: int where "kPiMinus = - 211"
definition kKPlus :: int where "kKPlus = 321"
definition kKMinus :: int where "kKMinus = - 321"
definition kProton_pdg :: int where "kProton_pdg = 2212"
definition kProtonBar :: int where "kProtonBar = - 2212"

definition GetTrueSpecies :: "AliVParticle \<Rightarrow> EParticleType" where
  "GetTrueSpecies par =
    (let c = PdgCode par in
     if c = kPositron \<or> c = kElectron_pdg then kElectron
     else if c = kProton_pdg \<or> c = kProtonBar then kProton
     else if c = kMuonPlus \<or> c = kMuonMinus then kMuon
     else if c = kPiPlus \<or> c = kPiMinus then kPion
     else if c = kKPlus \<or> c = kKMinus then kKaon
     else kUnknown)"

text \<open>
  The static members the truth lookup reads: the data format flag, the Monte Carlo event
  of the ESD branch and the Monte Carlo array of the AOD branch. A lookup that returns
  \<^verbatim>\<open>NULL\<close> is \<open>None\<close>.
\<close>

record statics =
  fgIsESD :: bool
  MCEvent_GetTrack :: "int \<Rightarrow> AliVParticle option"
  fgMCArray_At :: "int \<Rightarrow> AliVParticle option"

definition IsTrueTrackAccepted_itrk :: "statics \<Rightarrow> AliCSPIDCuts \<Rightarrow> int \<Rightarrow> bool" where
  "IsTrueTrackAccepted_itrk g s itrk =
    (if fgIsESD g then
       (case MCEvent_GetTrack g itrk of
          None \<Rightarrow> False
        | Some particle \<Rightarrow>
            (let p = P particle in
             if p < fMinP s \<or> fMaxP s < p then False
             else if TestBitNumber (fCutsEnabledMask s) kITSdEdxSigmaCut \<or>
                     TestBitNumber (fCutsEnabledMask s) kTPCdEdxSigmaCut \<or>
                     TestBitNumber (fCutsEnabledMask s) kTOFSigmaCut \<or>
                     TestBitNumber (fCutsEnabledMask s) kTPCTOF2DSigmaCut
             then (if GetTrueSpecies particle \<noteq> fTargetSpecies s then False else True)
             else True))
     else
       (case fgMCArray_At g itrk of
          None \<Rightarrow> False
        | Some particle \<Rightarrow>
            (let p = P particle in
             if p < fMinP s \<or> fMaxP s < p then False
             else if TestBitNumber (fCutsEnabledMask s) kITSdEdxSigmaCut \<or>
                     TestBitNumber (fCutsEnabledMask s) kTPCdEdxSigmaCut \<or>
                     TestBitNumber (fCutsEnabledMask s) kTOFSigmaCut \<or>
                     TestBitNumber (fCutsEnabledMask s) kTPCTOF2DSigmaCut
             then (if GetTrueSpecies particle \<noteq> fTargetSpecies s then False else True)
             else True)))"

definition IsTrueTrackAccepted :: "statics \<Rightarrow> AliCSPIDCuts \<Rightarrow> AliVTrack \<Rightarrow> bool" where
  "IsTrueTrackAccepted g s trk =
    (if GetLabel trk < 0 then False else IsTrueTrackAccepted_itrk g s (GetLabel trk))"

subsection \<open>The one-dimensional band test\<close>

datatype detector = ITS | TPC | TOF

definition nSigmaBelow :: "AliCSPIDCuts \<Rightarrow> detector \<Rightarrow> EParticleType \<Rightarrow> real" where
  "nSigmaBelow s d =
    (case d of ITS \<Rightarrow> fITSnSigmaBelow s | TPC \<Rightarrow> fTPCnSigmaBelow s | TOF \<Rightarrow> fTOFnSigmaBelow s)"

definition nSigmaAbove :: "AliCSPIDCuts \<Rightarrow> detector \<Rightarrow> EParticleType \<Rightarrow> real" where
  "nSigmaAbove s d =
    (case d of ITS \<Rightarrow> fITSnSigmaAbove s | TPC \<Rightarrow> fTPCnSigmaAbove s | TOF \<Rightarrow> fTOFnSigmaAbove s)"

definition EnabledSpeciesMask :: "AliCSPIDCuts \<Rightarrow> detector \<Rightarrow> EParticleType set" where
  "EnabledSpeciesMask s d =
    (case d of ITS \<Rightarrow> fITSEnabledSpeciesMask s | TPC \<Rightarrow> fTPCEnabledSpeciesMask s
     | TOF \<Rightarrow> fTOFEnabledSpeciesMask s)"

text \<open>
  Modelled from the spec: \<^verbatim>\<open>IsTrackAccepted\<close> returns what the inline method
  \<^verbatim>\<open>accept\<close> of \<^verbatim>\<open>AliCSPIDCuts.h\<close> decides, and that header is not among the sources.
  The spec gives the one-dimensional test of a detector for one species: a species without
  an enabled band passes vacuously; with an enabled band, the target species passes iff
  \<open>lowerBound < nSigma < upperBound\<close>, strict on both sides, and a species other than the
  target passes iff \<open>nSigma < lowerBound\<close> or \<open>nSigma > upperBound\<close>. The masks and the
  bounds are those the setters above store.
\<close>

definition bandTest :: "AliCSPIDCuts \<Rightarrow> detector \<Rightarrow> EParticleType \<Rightarrow> real \<Rightarrow> bool" where
  "bandTest s d sp nSigma =
    (if TestBitNumber (EnabledSpeciesMask s d) sp then
       (if sp = fTargetSpecies s
        then nSigmaBelow s d sp < nSigma \<and> nSigma < nSigmaAbove s d sp
        else nSigma < nSigmaBelow s d sp \<or> nSigma > nSigmaAbove s d sp)
     else True)"

subsection \<open>Auxiliary notions for the statements\<close>

text \<open>The particle that the branch in use looks up for a label.\<close>

definition associated :: "statics \<Rightarrow> int \<Rightarrow> AliVParticle option" where
  "associated g itrk = (if fgIsESD g then MCEvent_GetTrack g itrk else fgMCArray_At g itrk)"

text \<open>
  The preset codes that the table in the documentation comment of each setter lists, by
  parameter id: the codes the setter has a \<^verbatim>\<open>case\<close> for.
\<close>

fun supportedCodes :: "cutsParametersIds \<Rightarrow> int set" where
  "supportedCodes kPMinCutParam = {0..9}"
| "supportedCodes kPMaxCutParam = {0..8}"
| "supportedCodes kITSdEdxSigmaCutParam_e = {0..8}"
| "supportedCodes kITSdEdxSigmaCutParam_mu = {0..8}"
| "supportedCodes kITSdEdxSigmaCutParam_pi = {0..8}"
| "supportedCodes kITSdEdxSigmaCutParam_k = {0..8}"
| "supportedCodes kITSdEdxSigmaCutParam_p = {0..8}"
| "supportedCodes kTPCdEdxSigmaCutParam_e = {0..9}"
| "supportedCodes kTPCdEdxSigmaCutParam_mu = {0..9}"
| "supportedCodes kTPCdEdxSigmaCutParam_pi = {0..9}"
| "supportedCodes kTPCdEdxSigmaCutParam_k = {0..9}"
| "supportedCodes kTPCdEdxSigmaCutParam_p = {0..9}"
| "supportedCodes kTOFSigmaCutParam_e = {0..5}"
| "supportedCodes kTOFSigmaCutParam_mu = {0..5}"
| "supportedCodes kTOFSigmaCutParam_pi = {0..5}"
| "supportedCodes kTOFSigmaCutParam_k = {0..5}"
| "supportedCodes kTOFSigmaCutParam_p = {0..5}"
| "supportedCodes kTPCTOFCutParam = {0..3}"

text \<open>A base-class part for the examples: every stored parameter 0, the descriptor empty.\<close>

definition base0 :: AliCSTrackCutsBase where
  "base0 = \<lparr> fParameters = (\<lambda>_. 0), fCutsString = [] \<rparr>"

text \<open>A descriptor rendering for the examples: the stored codes of the two momentum parameters.\<close>

definition descr0 :: "(cutsParametersIds \<Rightarrow> int) \<Rightarrow> string" where
  "descr0 ps = [char_of (ps kPMinCutParam), char_of (ps kPMaxCutParam)]"

text \<open>Two Monte Carlo sources and a track for the examples.\<close>

definition pion1 :: AliVParticle where
  "pion1 = \<lparr> P = 9999, PdgCode = 211 \<rparr>"

definition statics0 :: statics where
  "statics0 = \<lparr> fgIsESD = True, MCEvent_GetTrack = [7 \<mapsto> pion1], fgMCArray_At = [7 \<mapsto> pion1] \<rparr>"

text \<open>
  The configurations a run can meet: the constructor builds the object and the setup phase
  changes it through \<^verbatim>\<open>SetCutAndParams\<close> only.
\<close>

inductive configured :: "AliCSPIDCuts \<Rightarrow> bool" where
  constructed: "configured (AliCSPIDCuts_new base target cutnumber)"
| configure: "configured s \<Longrightarrow> configured (snd (SetCutAndParams descr paramID value s))"

text \<open>Every enabled band has its lower bound below its upper bound.\<close>

definition bandsOrdered :: "AliCSPIDCuts \<Rightarrow> bool" where
  "bandsOrdered s =
    (\<forall>d sp. TestBitNumber (EnabledSpeciesMask s d) sp \<longrightarrow> nSigmaBelow s d sp < nSigmaAbove s d sp)"

text \<open>
  A configuration for the examples: a pion cut with the TPC band of code 7 around the pion
  line (parameter 9) and the TPC separation band of code 5 to the kaon line (parameter 10).
\<close>

definition pionTPC :: AliCSPIDCuts where
  "pionTPC = snd (SetCutAndParams descr0 10 5
                (snd (SetCutAndParams descr0 9 7 (AliCSPIDCuts_new base0 kPion 0))))"

section \<open>Properties\<close>

subsection \<open>Basic facts\<close>

lemmas TBits_defs = SetBitNumber_def ResetBitNumber_def TestBitNumber_def CountBits_def

lemmas pdg_defs = kElectron_pdg_def kPositron_def kMuonMinus_def kMuonPlus_def kPiPlus_def
  kPiMinus_def kKPlus_def kKMinus_def kProton_pdg_def kProtonBar_def

lemma finite_species [simp]: "finite (m :: EParticleType set)"
proof -
  have "m \<subseteq> {kElectron, kMuon, kPion, kKaon, kProton, kUnknown}"
    using EParticleType.exhaust by auto
  then show ?thesis by (rule finite_subset) simp
qed

lemma CountBits_species: "(CountBits (m :: EParticleType set) > 0) = (m \<noteq> {})"
  by (simp add: CountBits_def card_gt_0_iff)

lemma any_cut_enabled:
  "(TestBitNumber m kITSdEdxSigmaCut \<or> TestBitNumber m kTPCdEdxSigmaCut \<or>
    TestBitNumber m kTOFSigmaCut \<or> TestBitNumber m kTPCTOF2DSigmaCut) = (m \<noteq> {})"
proof
  assume "TestBitNumber m kITSdEdxSigmaCut \<or> TestBitNumber m kTPCdEdxSigmaCut \<or>
    TestBitNumber m kTOFSigmaCut \<or> TestBitNumber m kTPCTOF2DSigmaCut"
  then show "m \<noteq> {}" by (auto simp: TestBitNumber_def)
next
  assume "m \<noteq> {}"
  then obtain c where "c \<in> m" by auto
  then show "TestBitNumber m kITSdEdxSigmaCut \<or> TestBitNumber m kTPCdEdxSigmaCut \<or>
    TestBitNumber m kTOFSigmaCut \<or> TestBitNumber m kTPCTOF2DSigmaCut"
    by (cases c) (auto simp: TestBitNumber_def)
qed

text \<open>What either branch of the truth acceptance does with the particle it found.\<close>

lemma accept_particle:
  assumes "associated g itrk = Some particle"
  shows "IsTrueTrackAccepted_itrk g s itrk =
     (fMinP s \<le> P particle \<and> P particle \<le> fMaxP s \<and>
      (fCutsEnabledMask s \<noteq> {} \<longrightarrow> GetTrueSpecies particle = fTargetSpecies s))"
proof (cases "fgIsESD g")
  case True
  with assms have "MCEvent_GetTrack g itrk = Some particle"
    by (simp add: associated_def)
  with True show ?thesis
    unfolding IsTrueTrackAccepted_itrk_def any_cut_enabled Let_def
    by (simp add: not_less)
next
  case False
  with assms have "fgMCArray_At g itrk = Some particle"
    by (simp add: associated_def)
  with False show ?thesis
    unfolding IsTrueTrackAccepted_itrk_def any_cut_enabled Let_def
    by (simp add: not_less)
qed

lemma accept_no_particle:
  assumes "associated g itrk = None"
  shows "\<not> IsTrueTrackAccepted_itrk g s itrk"
proof (cases "fgIsESD g")
  case True
  with assms have "MCEvent_GetTrack g itrk = None"
    by (simp add: associated_def)
  with True show ?thesis by (simp add: IsTrueTrackAccepted_itrk_def)
next
  case False
  with assms have "fgMCArray_At g itrk = None"
    by (simp add: associated_def)
  with False show ?thesis by (simp add: IsTrueTrackAccepted_itrk_def)
qed

lemma same_kinematics:
  assumes "map_option (\<lambda>a. (P a, PdgCode a)) x = map_option (\<lambda>a. (P a, PdgCode a)) y"
  shows "x = (y :: AliVParticle option)"
proof (cases x)
  case None
  with assms show ?thesis by simp
next
  case (Some a)
  with assms obtain b where "y = Some b" "P a = P b" "PdgCode a = PdgCode b"
    by (cases y) auto
  with Some show ?thesis by simp
qed

lemma fresh_fields:
  "fMinP (AliCSPIDCuts_new base target n) = 0"
  "fMaxP (AliCSPIDCuts_new base target n) = 9999"
  "fCutsEnabledMask (AliCSPIDCuts_new base target n) = {}"
  "fTargetSpecies (AliCSPIDCuts_new base target n) = target"
  by (simp_all add: AliCSPIDCuts_new_def)

lemma associated_statics0: "associated statics0 7 = Some pion1"
  by (simp add: associated_def statics0_def)

subsection \<open>The truth classifier\<close>

text \<open>
  C8. \<^verbatim>\<open>GetTrueSpecies\<close> is a total function of the PDG code of the particle: electron and
  positron (11, -11) give the electron, proton and antiproton (2212, -2212) the proton,
  the muons (13, -13) the muon, the charged pions (211, -211) the pion, the charged kaons
  (321, -321) the kaon, and every other code gives unknown; two particles with the same
  code get the same species.
\<close>

theorem GetTrueSpecies_table:
  "GetTrueSpecies par =
    (if PdgCode par = 11 \<or> PdgCode par = - 11 then kElectron
     else if PdgCode par = 2212 \<or> PdgCode par = - 2212 then kProton
     else if PdgCode par = 13 \<or> PdgCode par = - 13 then kMuon
     else if PdgCode par = 211 \<or> PdgCode par = - 211 then kPion
     else if PdgCode par = 321 \<or> PdgCode par = - 321 then kKaon
     else kUnknown)
   \<and> (PdgCode par = PdgCode par' \<longrightarrow> GetTrueSpecies par = GetTrueSpecies par')"
  by (auto simp: GetTrueSpecies_def Let_def pdg_defs)

theorem GetTrueSpecies_table_witness:
  "PdgCode \<lparr>P = 1, PdgCode = - 211\<rparr> = PdgCode \<lparr>P = 2, PdgCode = - 211\<rparr>
   \<and> GetTrueSpecies \<lparr>P = 1, PdgCode = - 211\<rparr> = kPion
   \<and> GetTrueSpecies \<lparr>P = 1, PdgCode = - 211\<rparr> = GetTrueSpecies \<lparr>P = 2, PdgCode = - 211\<rparr>"
  using GetTrueSpecies_table [of "\<lparr>P = 1, PdgCode = - 211\<rparr>" "\<lparr>P = 2, PdgCode = - 211\<rparr>"]
  by auto

subsection \<open>The truth acceptance\<close>

text \<open>
  C5. The momentum gate of \<^verbatim>\<open>IsTrueTrackAccepted\<close> has inclusive boundaries. For the
  particle associated to the label: a momentum below \<open>fMinP\<close> or above \<open>fMaxP\<close> is rejected,
  and whenever the species requirement does not interfere (no cut category is enabled, or
  the particle is of the target species) the particle is accepted iff
  \<open>fMinP \<le> p \<le> fMaxP\<close>, so \<open>p = fMinP\<close> and \<open>p = fMaxP\<close> are accepted.
\<close>

theorem momentum_gate_inclusive:
  assumes "associated g itrk = Some particle"
  shows "(P particle < fMinP s \<or> fMaxP s < P particle \<longrightarrow> \<not> IsTrueTrackAccepted_itrk g s itrk)
   \<and> (fCutsEnabledMask s = {} \<or> GetTrueSpecies particle = fTargetSpecies s \<longrightarrow>
        IsTrueTrackAccepted_itrk g s itrk = (fMinP s \<le> P particle \<and> P particle \<le> fMaxP s))"
  unfolding accept_particle [OF assms] by auto

theorem momentum_gate_inclusive_witness:
  "associated statics0 7 = Some pion1
   \<and> fCutsEnabledMask (AliCSPIDCuts_new base0 kPion 0) = {}
   \<and> P pion1 = fMaxP (AliCSPIDCuts_new base0 kPion 0)
   \<and> IsTrueTrackAccepted_itrk statics0 (AliCSPIDCuts_new base0 kPion 0) 7"
  using momentum_gate_inclusive [OF associated_statics0, of "AliCSPIDCuts_new base0 kPion 0"]
  by (simp add: associated_statics0 fresh_fields pion1_def)

text \<open>
  C7. \<^verbatim>\<open>IsTrueTrackAccepted\<close> rejects a track whose label is negative. Otherwise it
  accepts iff a particle is associated to the label, the momentum of the particle is within
  the momentum gate and, when at least one of the four cut categories is enabled, the true
  species of the particle is the target species.
\<close>

theorem IsTrueTrackAccepted_decision:
  "IsTrueTrackAccepted g s trk =
    (if GetLabel trk < 0 then False
     else (case associated g (GetLabel trk) of
             None \<Rightarrow> False
           | Some particle \<Rightarrow>
               fMinP s \<le> P particle \<and> P particle \<le> fMaxP s \<and>
               (fCutsEnabledMask s \<noteq> {} \<longrightarrow> GetTrueSpecies particle = fTargetSpecies s)))"
proof (cases "associated g (GetLabel trk)")
  case None
  then show ?thesis by (simp add: IsTrueTrackAccepted_def accept_no_particle)
next
  case (Some particle)
  then show ?thesis by (simp add: IsTrueTrackAccepted_def accept_particle)
qed

theorem IsTrueTrackAccepted_decision_witness:
  "fCutsEnabledMask (snd (SetITSdEdxSigmaCut kPion 3 (AliCSPIDCuts_new base0 kPion 0))) \<noteq> {}
   \<and> GetTrueSpecies pion1 = fTargetSpecies (snd (SetITSdEdxSigmaCut kPion 3 (AliCSPIDCuts_new base0 kPion 0)))
   \<and> IsTrueTrackAccepted statics0 (snd (SetITSdEdxSigmaCut kPion 3 (AliCSPIDCuts_new base0 kPion 0)))
        \<lparr>GetLabel = 7\<rparr>
   \<and> \<not> IsTrueTrackAccepted statics0 (snd (SetITSdEdxSigmaCut kPion 3 (AliCSPIDCuts_new base0 kProton 0)))
        \<lparr>GetLabel = 7\<rparr>
   \<and> \<not> IsTrueTrackAccepted statics0 (AliCSPIDCuts_new base0 kPion 0) \<lparr>GetLabel = - 1\<rparr>"
  using IsTrueTrackAccepted_decision [of statics0
      "snd (SetITSdEdxSigmaCut kPion 3 (AliCSPIDCuts_new base0 kPion 0))" "\<lparr>GetLabel = 7\<rparr>"]
    IsTrueTrackAccepted_decision [of statics0
      "snd (SetITSdEdxSigmaCut kPion 3 (AliCSPIDCuts_new base0 kProton 0))" "\<lparr>GetLabel = 7\<rparr>"]
    IsTrueTrackAccepted_decision [of statics0 "AliCSPIDCuts_new base0 kPion 0" "\<lparr>GetLabel = - 1\<rparr>"]
  by (simp add: associated_statics0 SetITSdEdxSigmaCut_def ITSenabled_def ITScase_def
      AliCSPIDCuts_new_def TBits_defs pion1_def GetTrueSpecies_def pdg_defs)

text \<open>
  C10. The ESD branch and the AOD branch of \<^verbatim>\<open>IsTrueTrackAccepted(Int_t)\<close> decide alike:
  when the two lookups give particles of equal momentum and equal PDG code, or both give
  none, the two branches return the same value, whatever the configuration.
\<close>

theorem ESD_AOD_branches_agree:
  assumes "map_option (\<lambda>a. (P a, PdgCode a)) (MCEvent_GetTrack g itrk) =
           map_option (\<lambda>a. (P a, PdgCode a)) (fgMCArray_At g itrk)"
  shows "IsTrueTrackAccepted_itrk (g\<lparr>fgIsESD := True\<rparr>) s itrk =
         IsTrueTrackAccepted_itrk (g\<lparr>fgIsESD := False\<rparr>) s itrk"
proof -
  have "MCEvent_GetTrack g itrk = fgMCArray_At g itrk"
    using assms by (rule same_kinematics)
  then show ?thesis by (simp add: IsTrueTrackAccepted_itrk_def)
qed

theorem ESD_AOD_branches_agree_witness:
  "map_option (\<lambda>a. (P a, PdgCode a)) (MCEvent_GetTrack statics0 7) =
   map_option (\<lambda>a. (P a, PdgCode a)) (fgMCArray_At statics0 7)
   \<and> IsTrueTrackAccepted_itrk (statics0\<lparr>fgIsESD := True\<rparr>) (AliCSPIDCuts_new base0 kPion 0) 7
   \<and> IsTrueTrackAccepted_itrk (statics0\<lparr>fgIsESD := False\<rparr>) (AliCSPIDCuts_new base0 kPion 0) 7"
proof -
  have h: "map_option (\<lambda>a. (P a, PdgCode a)) (MCEvent_GetTrack statics0 7) =
           map_option (\<lambda>a. (P a, PdgCode a)) (fgMCArray_At statics0 7)"
    by (simp add: statics0_def)
  have "IsTrueTrackAccepted_itrk (statics0\<lparr>fgIsESD := True\<rparr>) (AliCSPIDCuts_new base0 kPion 0) 7"
    by (simp add: IsTrueTrackAccepted_itrk_def statics0_def pion1_def AliCSPIDCuts_new_def
        TBits_defs)
  with h ESD_AOD_branches_agree [OF h, of "AliCSPIDCuts_new base0 kPion 0"]
  show ?thesis by simp
qed

subsection \<open>The combined TPC+TOF mode\<close>

text \<open>
  C4. \<^verbatim>\<open>SetTPCTOFCut\<close> accepts exactly the codes 0, 1, 2 and 3 and leaves the object as it
  was for any other code. After an accepted code, \<open>fTOFRequired\<close> holds iff the code is 1 or
  3; the TPC+TOF species mask is the intersection of the TPC and the TOF species masks of
  the object the call started from when the code is 2 or 3 and is empty when the code is
  0 or 1; and the bit of the combined cut in \<open>fCutsEnabledMask\<close> is set iff that mask is not
  empty.
\<close>

theorem SetTPCTOFCut_modes:
  "fst (SetTPCTOFCut code s) = (code \<in> {0, 1, 2, 3})
   \<and> (code \<notin> {0, 1, 2, 3} \<longrightarrow> snd (SetTPCTOFCut code s) = s)
   \<and> (code \<in> {0, 1, 2, 3} \<longrightarrow>
        fTOFRequired (snd (SetTPCTOFCut code s)) = (code = 1 \<or> code = 3)
      \<and> fTPCTOF2DEnabledSpeciesMask (snd (SetTPCTOFCut code s)) =
          (if code = 2 \<or> code = 3 then fTPCEnabledSpeciesMask s \<inter> fTOFEnabledSpeciesMask s else {})
      \<and> TestBitNumber (fCutsEnabledMask (snd (SetTPCTOFCut code s))) kTPCTOF2DSigmaCut =
          (fTPCTOF2DEnabledSpeciesMask (snd (SetTPCTOFCut code s)) \<noteq> {}))"
  by (auto simp: SetTPCTOFCut_def TPCTOFenabled_def CountBits_species TBits_defs)

theorem SetTPCTOFCut_modes_witness:
  "(3::int) \<in> {0, 1, 2, 3}
   \<and> fst (SetTPCTOFCut 3 (snd (SetTOFSigmaCut kPion 2
        (snd (SetTPCdEdxSigmaCut kPion 3 (AliCSPIDCuts_new base0 kPion 0))))))
   \<and> fTOFRequired (snd (SetTPCTOFCut 3 (snd (SetTOFSigmaCut kPion 2
        (snd (SetTPCdEdxSigmaCut kPion 3 (AliCSPIDCuts_new base0 kPion 0)))))))
   \<and> fTPCTOF2DEnabledSpeciesMask (snd (SetTPCTOFCut 3 (snd (SetTOFSigmaCut kPion 2
        (snd (SetTPCdEdxSigmaCut kPion 3 (AliCSPIDCuts_new base0 kPion 0))))))) = {kPion}
   \<and> TestBitNumber (fCutsEnabledMask (snd (SetTPCTOFCut 3 (snd (SetTOFSigmaCut kPion 2
        (snd (SetTPCdEdxSigmaCut kPion 3 (AliCSPIDCuts_new base0 kPion 0)))))))) kTPCTOF2DSigmaCut
   \<and> \<not> fst (SetTPCTOFCut 4 (AliCSPIDCuts_new base0 kPion 0))
   \<and> snd (SetTPCTOFCut 4 (AliCSPIDCuts_new base0 kPion 0)) = AliCSPIDCuts_new base0 kPion 0"
  using SetTPCTOFCut_modes [of 3 "snd (SetTOFSigmaCut kPion 2
        (snd (SetTPCdEdxSigmaCut kPion 3 (AliCSPIDCuts_new base0 kPion 0))))"]
    SetTPCTOFCut_modes [of 4 "AliCSPIDCuts_new base0 kPion 0"]
  by (simp add: SetTOFSigmaCut_def TOFenabled_def TOFcase_def SetTPCdEdxSigmaCut_def
      TPCenabled_def TPCcase_def AliCSPIDCuts_new_def TBits_defs)

subsection \<open>The default momentum window\<close>

text \<open>
  C6, as amended. A freshly constructed cut has the momentum window from 0 to 9999: its
  momentum gate accepts the associated particle iff \<open>0 \<le> p \<le> 9999\<close>. \<^verbatim>\<open>SetPMax(0)\<close> is
  accepted and sets the maximum to 1000000, leaving everything else; afterwards, when the
  species requirement does not interfere, the particle is accepted iff
  \<open>fMinP \<le> p \<le> 1000000\<close>.
\<close>

theorem default_window_amended:
  "(associated g itrk = Some particle \<longrightarrow>
      IsTrueTrackAccepted_itrk g (AliCSPIDCuts_new base target n) itrk =
        (0 \<le> P particle \<and> P particle \<le> 9999))
   \<and> SetPMax 0 s = (True, s\<lparr>fMaxP := 1000000\<rparr>)
   \<and> (associated g itrk = Some particle \<and>
       (fCutsEnabledMask s = {} \<or> GetTrueSpecies particle = fTargetSpecies s) \<longrightarrow>
      IsTrueTrackAccepted_itrk g (snd (SetPMax 0 s)) itrk =
        (fMinP s \<le> P particle \<and> P particle \<le> 1000000))"
  by (auto simp: accept_particle fresh_fields SetPMax_def)

theorem default_window_amended_witness:
  "associated statics0 7 = Some pion1
   \<and> IsTrueTrackAccepted_itrk statics0 (AliCSPIDCuts_new base0 kPion 0) 7
   \<and> fCutsEnabledMask (AliCSPIDCuts_new base0 kPion 0) = {}
   \<and> IsTrueTrackAccepted_itrk statics0 (snd (SetPMax 0 (AliCSPIDCuts_new base0 kPion 0))) 7"
  using default_window_amended [of statics0 7 pion1 base0 kPion 0 "AliCSPIDCuts_new base0 kPion 0"]
  by (auto simp: associated_statics0 fresh_fields pion1_def)

text \<open>
  The window is not unbounded above: a fresh cut rejects a particle of momentum 10000,
  and after \<^verbatim>\<open>SetPMax(0)\<close> a particle of momentum 2000000 is rejected.
\<close>

theorem default_window_counterexample:
  "\<not> IsTrueTrackAccepted_itrk
        \<lparr>fgIsESD = True, MCEvent_GetTrack = [7 \<mapsto> \<lparr>P = 10000, PdgCode = 211\<rparr>],
         fgMCArray_At = Map.empty\<rparr>
        (AliCSPIDCuts_new base0 kPion 0) 7
   \<and> \<not> IsTrueTrackAccepted_itrk
        \<lparr>fgIsESD = True, MCEvent_GetTrack = [7 \<mapsto> \<lparr>P = 2000000, PdgCode = 211\<rparr>],
         fgMCArray_At = Map.empty\<rparr>
        (snd (SetPMax 0 (AliCSPIDCuts_new base0 kPion 0))) 7"
  by (simp add: IsTrueTrackAccepted_itrk_def AliCSPIDCuts_new_def SetPMax_def)

subsection \<open>The setters, one by one\<close>

lemma codes_upto:
  "((v::int) \<in> {0..3}) = (v = 0 \<or> v = 1 \<or> v = 2 \<or> v = 3)"
  "((v::int) \<in> {0..5}) = (v = 0 \<or> v = 1 \<or> v = 2 \<or> v = 3 \<or> v = 4 \<or> v = 5)"
  "((v::int) \<in> {0..8}) =
     (v = 0 \<or> v = 1 \<or> v = 2 \<or> v = 3 \<or> v = 4 \<or> v = 5 \<or> v = 6 \<or> v = 7 \<or> v = 8)"
  "((v::int) \<in> {0..9}) =
     (v = 0 \<or> v = 1 \<or> v = 2 \<or> v = 3 \<or> v = 4 \<or> v = 5 \<or> v = 6 \<or> v = 7 \<or> v = 8 \<or> v = 9)"
  by (simp_all, presburger+)

lemma SetPMin_fst: "fst (SetPMin v s) = (v \<in> {0..9})"
  unfolding codes_upto by (simp add: SetPMin_def)

lemma SetPMin_rejects: "v \<notin> {0..9} \<Longrightarrow> SetPMin v s = (False, s)"
  unfolding codes_upto by (simp add: SetPMin_def)

lemma SetPMin_idem: "SetPMin v (snd (SetPMin v s)) = SetPMin v s"
  by (simp add: SetPMin_def)

lemma SetPMin_frame:
  "SetPMin v (s\<lparr>fParameters := p, fCutsString := t\<rparr>) =
   (fst (SetPMin v s), (snd (SetPMin v s))\<lparr>fParameters := p, fCutsString := t\<rparr>)"
  by (simp add: SetPMin_def)

lemma SetPMax_fst: "fst (SetPMax v s) = (v \<in> {0..8})"
  unfolding codes_upto by (simp add: SetPMax_def)

lemma SetPMax_rejects: "v \<notin> {0..8} \<Longrightarrow> SetPMax v s = (False, s)"
  unfolding codes_upto by (simp add: SetPMax_def)

lemma SetPMax_idem: "SetPMax v (snd (SetPMax v s)) = SetPMax v s"
  by (simp add: SetPMax_def)

lemma SetPMax_frame:
  "SetPMax v (s\<lparr>fParameters := p, fCutsString := t\<rparr>) =
   (fst (SetPMax v s), (snd (SetPMax v s))\<lparr>fParameters := p, fCutsString := t\<rparr>)"
  by (simp add: SetPMax_def)

lemma ITSstep_idem:
  "ITSenabled (ITScase sid en lo hi (ITSenabled (ITScase sid en lo hi s))) =
   ITSenabled (ITScase sid en lo hi s)"
  by (simp add: ITSenabled_def ITScase_def CountBits_species SetBitNumber_def ResetBitNumber_def)

lemma ITSstep_frame:
  "ITSenabled (ITScase sid en lo hi (s\<lparr>fParameters := p, fCutsString := t\<rparr>)) =
   (ITSenabled (ITScase sid en lo hi s))\<lparr>fParameters := p, fCutsString := t\<rparr>"
  by (simp add: ITSenabled_def ITScase_def)

lemma ITSstep_fields:
  "TestBitNumber (fCutsEnabledMask (ITSenabled (ITScase sid en lo hi s))) kITSdEdxSigmaCut =
     (CountBits (fITSEnabledSpeciesMask (ITSenabled (ITScase sid en lo hi s))) > 0)"
  "fITSEnabledSpeciesMask (ITSenabled (ITScase sid en lo hi s)) =
     (if en then insert sid (fITSEnabledSpeciesMask s) else fITSEnabledSpeciesMask s - {sid})"
  "fITSnSigmaBelow (ITSenabled (ITScase sid en lo hi s)) sid = lo"
  "fITSnSigmaAbove (ITSenabled (ITScase sid en lo hi s)) sid = hi"
  by (simp_all add: ITSenabled_def ITScase_def TBits_defs)

lemma SetITSdEdxSigmaCut_fst: "fst (SetITSdEdxSigmaCut sid v s) = (v \<in> {0..8})"
  unfolding codes_upto by (simp add: SetITSdEdxSigmaCut_def)

lemma SetITSdEdxSigmaCut_rejects: "v \<notin> {0..8} \<Longrightarrow> SetITSdEdxSigmaCut sid v s = (False, s)"
  unfolding codes_upto by (simp add: SetITSdEdxSigmaCut_def)

lemma SetITSdEdxSigmaCut_idem: "SetITSdEdxSigmaCut sid v (snd (SetITSdEdxSigmaCut sid v s)) = SetITSdEdxSigmaCut sid v s"
  by (simp add: SetITSdEdxSigmaCut_def ITSstep_idem)

lemma SetITSdEdxSigmaCut_frame:
  "SetITSdEdxSigmaCut sid v (s\<lparr>fParameters := p, fCutsString := t\<rparr>) =
   (fst (SetITSdEdxSigmaCut sid v s), (snd (SetITSdEdxSigmaCut sid v s))\<lparr>fParameters := p, fCutsString := t\<rparr>)"
  by (simp add: SetITSdEdxSigmaCut_def ITSstep_frame)

lemma SetITSdEdxSigmaCut_bit:
  "fst (SetITSdEdxSigmaCut sid v s) \<Longrightarrow>
   TestBitNumber (fCutsEnabledMask (snd (SetITSdEdxSigmaCut sid v s))) kITSdEdxSigmaCut =
     (CountBits (fITSEnabledSpeciesMask (snd (SetITSdEdxSigmaCut sid v s))) > 0)"
  by (simp add: SetITSdEdxSigmaCut_def ITSstep_fields(1) split: if_splits)

lemma SetITSdEdxSigmaCut_passive:
  "SetITSdEdxSigmaCut sid 0 s = (True, ITSenabled (ITScase sid False (- 100) 100 s))"
  by (simp add: SetITSdEdxSigmaCut_def)

lemma TPCstep_idem:
  "TPCenabled (TPCcase sid en lo hi (TPCenabled (TPCcase sid en lo hi s))) =
   TPCenabled (TPCcase sid en lo hi s)"
  by (simp add: TPCenabled_def TPCcase_def CountBits_species SetBitNumber_def ResetBitNumber_def)

lemma TPCstep_frame:
  "TPCenabled (TPCcase sid en lo hi (s\<lparr>fParameters := p, fCutsString := t\<rparr>)) =
   (TPCenabled (TPCcase sid en lo hi s))\<lparr>fParameters := p, fCutsString := t\<rparr>"
  by (simp add: TPCenabled_def TPCcase_def)

lemma TPCstep_fields:
  "TestBitNumber (fCutsEnabledMask (TPCenabled (TPCcase sid en lo hi s))) kTPCdEdxSigmaCut =
     (CountBits (fTPCEnabledSpeciesMask (TPCenabled (TPCcase sid en lo hi s))) > 0)"
  "fTPCEnabledSpeciesMask (TPCenabled (TPCcase sid en lo hi s)) =
     (if en then insert sid (fTPCEnabledSpeciesMask s) else fTPCEnabledSpeciesMask s - {sid})"
  "fTPCnSigmaBelow (TPCenabled (TPCcase sid en lo hi s)) sid = lo"
  "fTPCnSigmaAbove (TPCenabled (TPCcase sid en lo hi s)) sid = hi"
  by (simp_all add: TPCenabled_def TPCcase_def TBits_defs)

lemma SetTPCdEdxSigmaCut_fst: "fst (SetTPCdEdxSigmaCut sid v s) = (v \<in> {0..9})"
  unfolding codes_upto by (simp add: SetTPCdEdxSigmaCut_def)

lemma SetTPCdEdxSigmaCut_rejects: "v \<notin> {0..9} \<Longrightarrow> SetTPCdEdxSigmaCut sid v s = (False, s)"
  unfolding codes_upto by (simp add: SetTPCdEdxSigmaCut_def)

lemma SetTPCdEdxSigmaCut_idem: "SetTPCdEdxSigmaCut sid v (snd (SetTPCdEdxSigmaCut sid v s)) = SetTPCdEdxSigmaCut sid v s"
  by (simp add: SetTPCdEdxSigmaCut_def TPCstep_idem)

lemma SetTPCdEdxSigmaCut_frame:
  "SetTPCdEdxSigmaCut sid v (s\<lparr>fParameters := p, fCutsString := t\<rparr>) =
   (fst (SetTPCdEdxSigmaCut sid v s), (snd (SetTPCdEdxSigmaCut sid v s))\<lparr>fParameters := p, fCutsString := t\<rparr>)"
  by (simp add: SetTPCdEdxSigmaCut_def TPCstep_frame)

lemma SetTPCdEdxSigmaCut_bit:
  "fst (SetTPCdEdxSigmaCut sid v s) \<Longrightarrow>
   TestBitNumber (fCutsEnabledMask (snd (SetTPCdEdxSigmaCut sid v s))) kTPCdEdxSigmaCut =
     (CountBits (fTPCEnabledSpeciesMask (snd (SetTPCdEdxSigmaCut sid v s))) > 0)"
  by (simp add: SetTPCdEdxSigmaCut_def TPCstep_fields(1) split: if_splits)

lemma SetTPCdEdxSigmaCut_passive:
  "SetTPCdEdxSigmaCut sid 0 s = (True, TPCenabled (TPCcase sid False (- 100) 100 s))"
  by (simp add: SetTPCdEdxSigmaCut_def)

lemma TOFstep_idem:
  "TOFenabled (TOFcase sid en lo hi (TOFenabled (TOFcase sid en lo hi s))) =
   TOFenabled (TOFcase sid en lo hi s)"
  by (simp add: TOFenabled_def TOFcase_def CountBits_species SetBitNumber_def ResetBitNumber_def)

lemma TOFstep_frame:
  "TOFenabled (TOFcase sid en lo hi (s\<lparr>fParameters := p, fCutsString := t\<rparr>)) =
   (TOFenabled (TOFcase sid en lo hi s))\<lparr>fParameters := p, fCutsString := t\<rparr>"
  by (simp add: TOFenabled_def TOFcase_def)

lemma TOFstep_fields:
  "TestBitNumber (fCutsEnabledMask (TOFenabled (TOFcase sid en lo hi s))) kTOFSigmaCut =
     (CountBits (fTOFEnabledSpeciesMask (TOFenabled (TOFcase sid en lo hi s))) > 0)"
  "fTOFEnabledSpeciesMask (TOFenabled (TOFcase sid en lo hi s)) =
     (if en then insert sid (fTOFEnabledSpeciesMask s) else fTOFEnabledSpeciesMask s - {sid})"
  "fTOFnSigmaBelow (TOFenabled (TOFcase sid en lo hi s)) sid = lo"
  "fTOFnSigmaAbove (TOFenabled (TOFcase sid en lo hi s)) sid = hi"
  by (simp_all add: TOFenabled_def TOFcase_def TBits_defs)

lemma SetTOFSigmaCut_fst: "fst (SetTOFSigmaCut sid v s) = (v \<in> {0..5})"
  unfolding codes_upto by (simp add: SetTOFSigmaCut_def)

lemma SetTOFSigmaCut_rejects: "v \<notin> {0..5} \<Longrightarrow> SetTOFSigmaCut sid v s = (False, s)"
  unfolding codes_upto by (simp add: SetTOFSigmaCut_def)

lemma SetTOFSigmaCut_idem: "SetTOFSigmaCut sid v (snd (SetTOFSigmaCut sid v s)) = SetTOFSigmaCut sid v s"
  by (simp add: SetTOFSigmaCut_def TOFstep_idem)

lemma SetTOFSigmaCut_frame:
  "SetTOFSigmaCut sid v (s\<lparr>fParameters := p, fCutsString := t\<rparr>) =
   (fst (SetTOFSigmaCut sid v s), (snd (SetTOFSigmaCut sid v s))\<lparr>fParameters := p, fCutsString := t\<rparr>)"
  by (simp add: SetTOFSigmaCut_def TOFstep_frame)

lemma SetTOFSigmaCut_bit:
  "fst (SetTOFSigmaCut sid v s) \<Longrightarrow>
   TestBitNumber (fCutsEnabledMask (snd (SetTOFSigmaCut sid v s))) kTOFSigmaCut =
     (CountBits (fTOFEnabledSpeciesMask (snd (SetTOFSigmaCut sid v s))) > 0)"
  by (simp add: SetTOFSigmaCut_def TOFstep_fields(1) split: if_splits)

lemma SetTOFSigmaCut_passive:
  "SetTOFSigmaCut sid 0 s = (True, TOFenabled (TOFcase sid False (- 100) 100 s))"
  by (simp add: SetTOFSigmaCut_def)

lemma TPCTOFenabled_idem: "TPCTOFenabled (TPCTOFenabled s) = TPCTOFenabled s"
  by (simp add: TPCTOFenabled_def TBits_defs)

lemma SetTPCTOFCut_fst: "fst (SetTPCTOFCut v s) = (v \<in> {0..3})"
  unfolding codes_upto by (simp add: SetTPCTOFCut_def)

lemma SetTPCTOFCut_rejects: "v \<notin> {0..3} \<Longrightarrow> SetTPCTOFCut v s = (False, s)"
  unfolding codes_upto by (simp add: SetTPCTOFCut_def)

lemma SetTPCTOFCut_idem: "SetTPCTOFCut v (snd (SetTPCTOFCut v s)) = SetTPCTOFCut v s"
  by (simp add: SetTPCTOFCut_def TPCTOFenabled_def TBits_defs)

lemma SetTPCTOFCut_frame:
  "SetTPCTOFCut v (s\<lparr>fParameters := p, fCutsString := t\<rparr>) =
   (fst (SetTPCTOFCut v s), (snd (SetTPCTOFCut v s))\<lparr>fParameters := p, fCutsString := t\<rparr>)"
  by (simp add: SetTPCTOFCut_def TPCTOFenabled_def)

lemma pionTPC_fields:
  "fTargetSpecies pionTPC = kPion"
  "fTPCEnabledSpeciesMask pionTPC = {kPion, kKaon}"
  "fTPCnSigmaBelow pionTPC kPion = - 3" "fTPCnSigmaAbove pionTPC kPion = 3"
  "fTPCnSigmaBelow pionTPC kKaon = - 4" "fTPCnSigmaAbove pionTPC kKaon = 4"
  by (auto simp: pionTPC_def SetCutAndParams_def cutsParametersIds_of_def accepted_def
      UpdateCutsString_def SetTPCdEdxSigmaCut_def TPCenabled_def TPCcase_def TBits_defs
      AliCSPIDCuts_new_def)

lemmas setters_fst = SetPMin_fst SetPMax_fst SetITSdEdxSigmaCut_fst SetTPCdEdxSigmaCut_fst
  SetTOFSigmaCut_fst SetTPCTOFCut_fst

lemmas setters_rejects = SetPMin_rejects SetPMax_rejects SetITSdEdxSigmaCut_rejects
  SetTPCdEdxSigmaCut_rejects SetTOFSigmaCut_rejects SetTPCTOFCut_rejects

subsection \<open>The detector-level bit\<close>

lemma ITS_setter_bit:
  "(fst (SetITSdEdxSigmaCut sid code s) \<longrightarrow>
      TestBitNumber (fCutsEnabledMask (snd (SetITSdEdxSigmaCut sid code s))) kITSdEdxSigmaCut =
        (CountBits (fITSEnabledSpeciesMask (snd (SetITSdEdxSigmaCut sid code s))) > 0))
   \<and> fst (SetITSdEdxSigmaCut sid 0 s)
   \<and> \<not> TestBitNumber (fITSEnabledSpeciesMask (snd (SetITSdEdxSigmaCut sid 0 s))) sid
   \<and> fITSnSigmaBelow (snd (SetITSdEdxSigmaCut sid 0 s)) sid = - 100
   \<and> fITSnSigmaAbove (snd (SetITSdEdxSigmaCut sid 0 s)) sid = 100
   \<and> (fITSEnabledSpeciesMask s = {sid} \<longrightarrow>
        \<not> TestBitNumber (fCutsEnabledMask (snd (SetITSdEdxSigmaCut sid 0 s))) kITSdEdxSigmaCut)"
proof (intro conjI impI)
  assume "fst (SetITSdEdxSigmaCut sid code s)"
  then show "TestBitNumber (fCutsEnabledMask (snd (SetITSdEdxSigmaCut sid code s))) kITSdEdxSigmaCut =
        (CountBits (fITSEnabledSpeciesMask (snd (SetITSdEdxSigmaCut sid code s))) > 0)"
    by (rule SetITSdEdxSigmaCut_bit)
next
  show "fst (SetITSdEdxSigmaCut sid 0 s)"
    by (simp add: SetITSdEdxSigmaCut_passive)
next
  show "\<not> TestBitNumber (fITSEnabledSpeciesMask (snd (SetITSdEdxSigmaCut sid 0 s))) sid"
    by (simp add: SetITSdEdxSigmaCut_passive ITSstep_fields TestBitNumber_def)
next
  show "fITSnSigmaBelow (snd (SetITSdEdxSigmaCut sid 0 s)) sid = - 100"
    by (simp add: SetITSdEdxSigmaCut_passive ITSstep_fields)
next
  show "fITSnSigmaAbove (snd (SetITSdEdxSigmaCut sid 0 s)) sid = 100"
    by (simp add: SetITSdEdxSigmaCut_passive ITSstep_fields)
next
  assume "fITSEnabledSpeciesMask s = {sid}"
  then show "\<not> TestBitNumber (fCutsEnabledMask (snd (SetITSdEdxSigmaCut sid 0 s))) kITSdEdxSigmaCut"
    by (simp add: SetITSdEdxSigmaCut_passive ITSstep_fields CountBits_def)
qed

lemma TPC_setter_bit:
  "(fst (SetTPCdEdxSigmaCut sid code s) \<longrightarrow>
      TestBitNumber (fCutsEnabledMask (snd (SetTPCdEdxSigmaCut sid code s))) kTPCdEdxSigmaCut =
        (CountBits (fTPCEnabledSpeciesMask (snd (SetTPCdEdxSigmaCut sid code s))) > 0))
   \<and> fst (SetTPCdEdxSigmaCut sid 0 s)
   \<and> \<not> TestBitNumber (fTPCEnabledSpeciesMask (snd (SetTPCdEdxSigmaCut sid 0 s))) sid
   \<and> fTPCnSigmaBelow (snd (SetTPCdEdxSigmaCut sid 0 s)) sid = - 100
   \<and> fTPCnSigmaAbove (snd (SetTPCdEdxSigmaCut sid 0 s)) sid = 100
   \<and> (fTPCEnabledSpeciesMask s = {sid} \<longrightarrow>
        \<not> TestBitNumber (fCutsEnabledMask (snd (SetTPCdEdxSigmaCut sid 0 s))) kTPCdEdxSigmaCut)"
proof (intro conjI impI)
  assume "fst (SetTPCdEdxSigmaCut sid code s)"
  then show "TestBitNumber (fCutsEnabledMask (snd (SetTPCdEdxSigmaCut sid code s))) kTPCdEdxSigmaCut =
        (CountBits (fTPCEnabledSpeciesMask (snd (SetTPCdEdxSigmaCut sid code s))) > 0)"
    by (rule SetTPCdEdxSigmaCut_bit)
next
  show "fst (SetTPCdEdxSigmaCut sid 0 s)"
    by (simp add: SetTPCdEdxSigmaCut_passive)
next
  show "\<not> TestBitNumber (fTPCEnabledSpeciesMask (snd (SetTPCdEdxSigmaCut sid 0 s))) sid"
    by (simp add: SetTPCdEdxSigmaCut_passive TPCstep_fields TestBitNumber_def)
next
  show "fTPCnSigmaBelow (snd (SetTPCdEdxSigmaCut sid 0 s)) sid = - 100"
    by (simp add: SetTPCdEdxSigmaCut_passive TPCstep_fields)
next
  show "fTPCnSigmaAbove (snd (SetTPCdEdxSigmaCut sid 0 s)) sid = 100"
    by (simp add: SetTPCdEdxSigmaCut_passive TPCstep_fields)
next
  assume "fTPCEnabledSpeciesMask s = {sid}"
  then show "\<not> TestBitNumber (fCutsEnabledMask (snd (SetTPCdEdxSigmaCut sid 0 s))) kTPCdEdxSigmaCut"
    by (simp add: SetTPCdEdxSigmaCut_passive TPCstep_fields CountBits_def)
qed

lemma TOF_setter_bit:
  "(fst (SetTOFSigmaCut sid code s) \<longrightarrow>
      TestBitNumber (fCutsEnabledMask (snd (SetTOFSigmaCut sid code s))) kTOFSigmaCut =
        (CountBits (fTOFEnabledSpeciesMask (snd (SetTOFSigmaCut sid code s))) > 0))
   \<and> fst (SetTOFSigmaCut sid 0 s)
   \<and> \<not> TestBitNumber (fTOFEnabledSpeciesMask (snd (SetTOFSigmaCut sid 0 s))) sid
   \<and> fTOFnSigmaBelow (snd (SetTOFSigmaCut sid 0 s)) sid = - 100
   \<and> fTOFnSigmaAbove (snd (SetTOFSigmaCut sid 0 s)) sid = 100
   \<and> (fTOFEnabledSpeciesMask s = {sid} \<longrightarrow>
        \<not> TestBitNumber (fCutsEnabledMask (snd (SetTOFSigmaCut sid 0 s))) kTOFSigmaCut)"
proof (intro conjI impI)
  assume "fst (SetTOFSigmaCut sid code s)"
  then show "TestBitNumber (fCutsEnabledMask (snd (SetTOFSigmaCut sid code s))) kTOFSigmaCut =
        (CountBits (fTOFEnabledSpeciesMask (snd (SetTOFSigmaCut sid code s))) > 0)"
    by (rule SetTOFSigmaCut_bit)
next
  show "fst (SetTOFSigmaCut sid 0 s)"
    by (simp add: SetTOFSigmaCut_passive)
next
  show "\<not> TestBitNumber (fTOFEnabledSpeciesMask (snd (SetTOFSigmaCut sid 0 s))) sid"
    by (simp add: SetTOFSigmaCut_passive TOFstep_fields TestBitNumber_def)
next
  show "fTOFnSigmaBelow (snd (SetTOFSigmaCut sid 0 s)) sid = - 100"
    by (simp add: SetTOFSigmaCut_passive TOFstep_fields)
next
  show "fTOFnSigmaAbove (snd (SetTOFSigmaCut sid 0 s)) sid = 100"
    by (simp add: SetTOFSigmaCut_passive TOFstep_fields)
next
  assume "fTOFEnabledSpeciesMask s = {sid}"
  then show "\<not> TestBitNumber (fCutsEnabledMask (snd (SetTOFSigmaCut sid 0 s))) kTOFSigmaCut"
    by (simp add: SetTOFSigmaCut_passive TOFstep_fields CountBits_def)
qed

text \<open>
  C2. After a successful call of \<^verbatim>\<open>SetITSdEdxSigmaCut\<close>, \<^verbatim>\<open>SetTPCdEdxSigmaCut\<close> or
  \<^verbatim>\<open>SetTOFSigmaCut\<close> the bit of the detector in \<open>fCutsEnabledMask\<close> is set iff the species
  mask of the detector counts more than zero bits. The preset code 0 is accepted, clears
  the bit of the species, sets its bounds to -100 and 100 and, when the species was the
  only enabled one, clears the bit of the detector.
\<close>

theorem band_setters_enabled_bit:
  "(fst (SetITSdEdxSigmaCut sid code s) \<longrightarrow>
      TestBitNumber (fCutsEnabledMask (snd (SetITSdEdxSigmaCut sid code s))) kITSdEdxSigmaCut =
        (CountBits (fITSEnabledSpeciesMask (snd (SetITSdEdxSigmaCut sid code s))) > 0))
   \<and> fst (SetITSdEdxSigmaCut sid 0 s)
   \<and> \<not> TestBitNumber (fITSEnabledSpeciesMask (snd (SetITSdEdxSigmaCut sid 0 s))) sid
   \<and> fITSnSigmaBelow (snd (SetITSdEdxSigmaCut sid 0 s)) sid = - 100
   \<and> fITSnSigmaAbove (snd (SetITSdEdxSigmaCut sid 0 s)) sid = 100
   \<and> (fITSEnabledSpeciesMask s = {sid} \<longrightarrow>
        \<not> TestBitNumber (fCutsEnabledMask (snd (SetITSdEdxSigmaCut sid 0 s))) kITSdEdxSigmaCut)
   \<and> (fst (SetTPCdEdxSigmaCut sid code s) \<longrightarrow>
      TestBitNumber (fCutsEnabledMask (snd (SetTPCdEdxSigmaCut sid code s))) kTPCdEdxSigmaCut =
        (CountBits (fTPCEnabledSpeciesMask (snd (SetTPCdEdxSigmaCut sid code s))) > 0))
   \<and> fst (SetTPCdEdxSigmaCut sid 0 s)
   \<and> \<not> TestBitNumber (fTPCEnabledSpeciesMask (snd (SetTPCdEdxSigmaCut sid 0 s))) sid
   \<and> fTPCnSigmaBelow (snd (SetTPCdEdxSigmaCut sid 0 s)) sid = - 100
   \<and> fTPCnSigmaAbove (snd (SetTPCdEdxSigmaCut sid 0 s)) sid = 100
   \<and> (fTPCEnabledSpeciesMask s = {sid} \<longrightarrow>
        \<not> TestBitNumber (fCutsEnabledMask (snd (SetTPCdEdxSigmaCut sid 0 s))) kTPCdEdxSigmaCut)
   \<and> (fst (SetTOFSigmaCut sid code s) \<longrightarrow>
      TestBitNumber (fCutsEnabledMask (snd (SetTOFSigmaCut sid code s))) kTOFSigmaCut =
        (CountBits (fTOFEnabledSpeciesMask (snd (SetTOFSigmaCut sid code s))) > 0))
   \<and> fst (SetTOFSigmaCut sid 0 s)
   \<and> \<not> TestBitNumber (fTOFEnabledSpeciesMask (snd (SetTOFSigmaCut sid 0 s))) sid
   \<and> fTOFnSigmaBelow (snd (SetTOFSigmaCut sid 0 s)) sid = - 100
   \<and> fTOFnSigmaAbove (snd (SetTOFSigmaCut sid 0 s)) sid = 100
   \<and> (fTOFEnabledSpeciesMask s = {sid} \<longrightarrow>
        \<not> TestBitNumber (fCutsEnabledMask (snd (SetTOFSigmaCut sid 0 s))) kTOFSigmaCut)"
  using ITS_setter_bit [of sid code s] TPC_setter_bit [of sid code s] TOF_setter_bit [of sid code s]
  by blast


theorem band_setters_enabled_bit_witness:
  "fITSEnabledSpeciesMask (snd (SetITSdEdxSigmaCut kPion 3 (AliCSPIDCuts_new base0 kPion 0))) = {kPion}
   \<and> fst (SetITSdEdxSigmaCut kPion 0 (snd (SetITSdEdxSigmaCut kPion 3 (AliCSPIDCuts_new base0 kPion 0))))
   \<and> \<not> TestBitNumber (fCutsEnabledMask (snd (SetITSdEdxSigmaCut kPion 0
          (snd (SetITSdEdxSigmaCut kPion 3 (AliCSPIDCuts_new base0 kPion 0)))))) kITSdEdxSigmaCut
   \<and> fst (SetTOFSigmaCut kKaon 2 pionTPC)
   \<and> TestBitNumber (fCutsEnabledMask (snd (SetTOFSigmaCut kKaon 2 pionTPC))) kTOFSigmaCut
   \<and> fst (SetTPCdEdxSigmaCut kKaon 0 pionTPC)
   \<and> TestBitNumber (fCutsEnabledMask (snd (SetTPCdEdxSigmaCut kKaon 0 pionTPC))) kTPCdEdxSigmaCut"
proof -
  have m: "fITSEnabledSpeciesMask (snd (SetITSdEdxSigmaCut kPion 3 (AliCSPIDCuts_new base0 kPion 0))) = {kPion}"
    by (simp add: SetITSdEdxSigmaCut_def ITSstep_fields AliCSPIDCuts_new_def)
  have t: "fTOFEnabledSpeciesMask (snd (SetTOFSigmaCut kKaon 2 pionTPC)) \<noteq> {}"
    by (simp add: SetTOFSigmaCut_def TOFstep_fields)
  have p: "fTPCEnabledSpeciesMask (snd (SetTPCdEdxSigmaCut kKaon 0 pionTPC)) = {kPion}"
    by (auto simp: pionTPC_fields SetTPCdEdxSigmaCut_def TPCstep_fields)
  have f: "fst (SetITSdEdxSigmaCut kPion 0 (snd (SetITSdEdxSigmaCut kPion 3 (AliCSPIDCuts_new base0 kPion 0))))"
    "fst (SetTOFSigmaCut kKaon 2 pionTPC)" "fst (SetTPCdEdxSigmaCut kKaon 0 pionTPC)"
    by (simp_all add: setters_fst)
  have a: "fITSEnabledSpeciesMask (snd (SetITSdEdxSigmaCut kPion 3 (AliCSPIDCuts_new base0 kPion 0))) = {kPion}
      \<longrightarrow> \<not> TestBitNumber (fCutsEnabledMask (snd (SetITSdEdxSigmaCut kPion 0
          (snd (SetITSdEdxSigmaCut kPion 3 (AliCSPIDCuts_new base0 kPion 0)))))) kITSdEdxSigmaCut"
    using band_setters_enabled_bit
      [of kPion 0 "snd (SetITSdEdxSigmaCut kPion 3 (AliCSPIDCuts_new base0 kPion 0))"]
    by blast
  have b: "fst (SetTOFSigmaCut kKaon 2 pionTPC) \<longrightarrow>
      TestBitNumber (fCutsEnabledMask (snd (SetTOFSigmaCut kKaon 2 pionTPC))) kTOFSigmaCut =
        (CountBits (fTOFEnabledSpeciesMask (snd (SetTOFSigmaCut kKaon 2 pionTPC))) > 0)"
    using band_setters_enabled_bit [of kKaon 2 pionTPC] by blast
  have c: "fst (SetTPCdEdxSigmaCut kKaon 0 pionTPC) \<longrightarrow>
      TestBitNumber (fCutsEnabledMask (snd (SetTPCdEdxSigmaCut kKaon 0 pionTPC))) kTPCdEdxSigmaCut =
        (CountBits (fTPCEnabledSpeciesMask (snd (SetTPCdEdxSigmaCut kKaon 0 pionTPC))) > 0)"
    using band_setters_enabled_bit [of kKaon 0 pionTPC] by blast
  from a b c show ?thesis
    by (simp add: m f CountBits_species t p)
qed

subsection \<open>Rejected values\<close>

lemma accepted_fst: "fst (accepted descr k v r) = fst r"
  by (simp add: accepted_def)

lemma accepted_rejected: "\<not> fst r \<Longrightarrow> accepted descr k v r = (False, snd r)"
  by (simp add: accepted_def)

lemma SetCutAndParams_None:
  "cutsParametersIds_of paramID = None \<Longrightarrow> SetCutAndParams descr paramID v s = (False, s)"
  by (simp add: SetCutAndParams_def)

lemma SetCutAndParams_fst:
  assumes "cutsParametersIds_of paramID = Some k"
  shows "fst (SetCutAndParams descr paramID v s) = (v \<in> supportedCodes k)"
  using assms by (cases k) (simp_all add: SetCutAndParams_def accepted_fst setters_fst)

lemma SetCutAndParams_rejects:
  assumes "cutsParametersIds_of paramID = Some k" and "v \<notin> supportedCodes k"
  shows "SetCutAndParams descr paramID v s = (False, s)"
  using assms
  by (cases k) (simp_all add: SetCutAndParams_def accepted_rejected setters_fst setters_rejects)

text \<open>
  C3. \<^verbatim>\<open>SetCutAndParams\<close> accepts a value iff the parameter id is one of the eighteen and
  the value is a preset code of that parameter; in every other case it returns
  \<^verbatim>\<open>kFALSE\<close> and the whole object (bounds, masks, momentum window, parameter store,
  descriptor) is what it was. Each setter alone does the same for a code outside its
  table.
\<close>

theorem rejected_value_keeps_state:
  "fst (SetCutAndParams descr paramID v s) =
     (\<exists>k. cutsParametersIds_of paramID = Some k \<and> v \<in> supportedCodes k)
   \<and> (\<not> (\<exists>k. cutsParametersIds_of paramID = Some k \<and> v \<in> supportedCodes k) \<longrightarrow>
        SetCutAndParams descr paramID v s = (False, s))
   \<and> (v \<notin> {0..9} \<longrightarrow> SetPMin v s = (False, s))
   \<and> (v \<notin> {0..8} \<longrightarrow> SetPMax v s = (False, s))
   \<and> (v \<notin> {0..8} \<longrightarrow> SetITSdEdxSigmaCut sid v s = (False, s))
   \<and> (v \<notin> {0..9} \<longrightarrow> SetTPCdEdxSigmaCut sid v s = (False, s))
   \<and> (v \<notin> {0..5} \<longrightarrow> SetTOFSigmaCut sid v s = (False, s))
   \<and> (v \<notin> {0..3} \<longrightarrow> SetTPCTOFCut v s = (False, s))"
proof -
  have a: "fst (SetCutAndParams descr paramID v s) =
     (\<exists>k. cutsParametersIds_of paramID = Some k \<and> v \<in> supportedCodes k)"
  proof (cases "cutsParametersIds_of paramID")
    case None
    then show ?thesis by (simp add: SetCutAndParams_None)
  next
    case (Some k)
    then show ?thesis by (simp add: SetCutAndParams_fst)
  qed
  have b: "\<not> (\<exists>k. cutsParametersIds_of paramID = Some k \<and> v \<in> supportedCodes k) \<longrightarrow>
        SetCutAndParams descr paramID v s = (False, s)"
  proof (cases "cutsParametersIds_of paramID")
    case None
    then show ?thesis by (simp add: SetCutAndParams_None)
  next
    case (Some k)
    then show ?thesis by (simp add: SetCutAndParams_rejects)
  qed
  from a b show ?thesis
    by (simp add: setters_rejects)
qed

theorem rejected_value_keeps_state_witness:
  "cutsParametersIds_of 2 = Some kITSdEdxSigmaCutParam_e
   \<and> (9::int) \<notin> supportedCodes kITSdEdxSigmaCutParam_e
   \<and> SetCutAndParams descr0 2 9 pionTPC = (False, pionTPC)
   \<and> cutsParametersIds_of 18 = None
   \<and> SetCutAndParams descr0 18 0 pionTPC = (False, pionTPC)
   \<and> (9::int) \<notin> {0..8}
   \<and> SetITSdEdxSigmaCut kElectron 9 pionTPC = (False, pionTPC)"
  using rejected_value_keeps_state [of descr0 2 9 pionTPC kElectron]
    rejected_value_keeps_state [of descr0 18 0 pionTPC kElectron]
  by (simp add: cutsParametersIds_of_def)

subsection \<open>Idempotence\<close>

lemma accepted_idem:
  assumes idem: "f (snd (f s)) = f s"
    and frame: "\<And>p t s. f (s\<lparr>fParameters := p, fCutsString := t\<rparr>) =
      (fst (f s), (snd (f s))\<lparr>fParameters := p, fCutsString := t\<rparr>)"
  shows "accepted descr k v (f (snd (accepted descr k v (f s)))) = accepted descr k v (f s)"
proof (cases "fst (f s)")
  case True
  then show ?thesis
    by (simp add: accepted_def UpdateCutsString_def frame idem)
next
  case False
  then show ?thesis
    by (simp add: accepted_def idem)
qed

lemma SetPMin_accepted_idem:
  "accepted descr k v (SetPMin v (snd (accepted descr k v (SetPMin v s)))) =
   accepted descr k v (SetPMin v s)"
  by (rule accepted_idem) (rule SetPMin_idem, rule SetPMin_frame)

lemma SetPMax_accepted_idem:
  "accepted descr k v (SetPMax v (snd (accepted descr k v (SetPMax v s)))) =
   accepted descr k v (SetPMax v s)"
  by (rule accepted_idem) (rule SetPMax_idem, rule SetPMax_frame)

lemma SetITSdEdxSigmaCut_accepted_idem:
  "accepted descr k v (SetITSdEdxSigmaCut sid v (snd (accepted descr k v (SetITSdEdxSigmaCut sid v s)))) =
   accepted descr k v (SetITSdEdxSigmaCut sid v s)"
  by (rule accepted_idem) (rule SetITSdEdxSigmaCut_idem, rule SetITSdEdxSigmaCut_frame)

lemma SetTPCdEdxSigmaCut_accepted_idem:
  "accepted descr k v (SetTPCdEdxSigmaCut sid v (snd (accepted descr k v (SetTPCdEdxSigmaCut sid v s)))) =
   accepted descr k v (SetTPCdEdxSigmaCut sid v s)"
  by (rule accepted_idem) (rule SetTPCdEdxSigmaCut_idem, rule SetTPCdEdxSigmaCut_frame)

lemma SetTOFSigmaCut_accepted_idem:
  "accepted descr k v (SetTOFSigmaCut sid v (snd (accepted descr k v (SetTOFSigmaCut sid v s)))) =
   accepted descr k v (SetTOFSigmaCut sid v s)"
  by (rule accepted_idem) (rule SetTOFSigmaCut_idem, rule SetTOFSigmaCut_frame)

lemma SetTPCTOFCut_accepted_idem:
  "accepted descr k v (SetTPCTOFCut v (snd (accepted descr k v (SetTPCTOFCut v s)))) =
   accepted descr k v (SetTPCTOFCut v s)"
  by (rule accepted_idem) (rule SetTPCTOFCut_idem, rule SetTPCTOFCut_frame)

lemmas setters_accepted_idem = SetPMin_accepted_idem SetPMax_accepted_idem
  SetITSdEdxSigmaCut_accepted_idem SetTPCdEdxSigmaCut_accepted_idem
  SetTOFSigmaCut_accepted_idem SetTPCTOFCut_accepted_idem

text \<open>
  C9. \<^verbatim>\<open>SetCutAndParams\<close> is idempotent: a second call with the same parameter id and
  value returns the same result and leaves the same object, descriptor string included, as
  the first call did.
\<close>

theorem SetCutAndParams_idempotent:
  "SetCutAndParams descr paramID v (snd (SetCutAndParams descr paramID v s)) =
   SetCutAndParams descr paramID v s"
proof (cases "cutsParametersIds_of paramID")
  case None
  then show ?thesis by (simp add: SetCutAndParams_None)
next
  case (Some k)
  then show ?thesis
    by (cases k) (simp_all add: SetCutAndParams_def setters_accepted_idem)
qed

subsection \<open>Ordered bands\<close>

lemma all_detectors: "(\<forall>d. Q d) = (Q ITS \<and> Q TPC \<and> Q TOF)"
  by (metis detector.exhaust)

lemma bandsOrdered_iff:
  "bandsOrdered s =
    ((\<forall>sp \<in> fITSEnabledSpeciesMask s. fITSnSigmaBelow s sp < fITSnSigmaAbove s sp)
     \<and> (\<forall>sp \<in> fTPCEnabledSpeciesMask s. fTPCnSigmaBelow s sp < fTPCnSigmaAbove s sp)
     \<and> (\<forall>sp \<in> fTOFEnabledSpeciesMask s. fTOFnSigmaBelow s sp < fTOFnSigmaAbove s sp))"
  unfolding bandsOrdered_def all_detectors
  by (auto simp: EnabledSpeciesMask_def nSigmaBelow_def nSigmaAbove_def TestBitNumber_def)

lemma bandsOrdered_frame:
  "bandsOrdered (s\<lparr>fParameters := p, fCutsString := t\<rparr>) = bandsOrdered s"
  by (simp add: bandsOrdered_iff)

lemma bandsOrdered_new: "bandsOrdered (AliCSPIDCuts_new base target n)"
  by (simp add: bandsOrdered_iff AliCSPIDCuts_new_def)

lemma SetPMin_ordered: "bandsOrdered s \<Longrightarrow> bandsOrdered (snd (SetPMin v s))"
  by (simp add: SetPMin_def bandsOrdered_iff)

lemma SetPMax_ordered: "bandsOrdered s \<Longrightarrow> bandsOrdered (snd (SetPMax v s))"
  by (simp add: SetPMax_def bandsOrdered_iff)

lemma SetTPCTOFCut_ordered: "bandsOrdered s \<Longrightarrow> bandsOrdered (snd (SetTPCTOFCut v s))"
  by (simp add: SetTPCTOFCut_def TPCTOFenabled_def bandsOrdered_iff)

lemma ITSstep_ordered:
  assumes "bandsOrdered s" and "en \<longrightarrow> lo < hi"
  shows "bandsOrdered (ITSenabled (ITScase sid en lo hi s))"
  using assms
  by (auto simp: bandsOrdered_iff ITSenabled_def ITScase_def SetBitNumber_def ResetBitNumber_def)

lemma SetITSdEdxSigmaCut_ordered: "bandsOrdered s \<Longrightarrow> bandsOrdered (snd (SetITSdEdxSigmaCut sid v s))"
  by (simp add: SetITSdEdxSigmaCut_def ITSstep_ordered)

lemma TPCstep_ordered:
  assumes "bandsOrdered s" and "en \<longrightarrow> lo < hi"
  shows "bandsOrdered (TPCenabled (TPCcase sid en lo hi s))"
  using assms
  by (auto simp: bandsOrdered_iff TPCenabled_def TPCcase_def SetBitNumber_def ResetBitNumber_def)

lemma SetTPCdEdxSigmaCut_ordered: "bandsOrdered s \<Longrightarrow> bandsOrdered (snd (SetTPCdEdxSigmaCut sid v s))"
  by (simp add: SetTPCdEdxSigmaCut_def TPCstep_ordered)

lemma TOFstep_ordered:
  assumes "bandsOrdered s" and "en \<longrightarrow> lo < hi"
  shows "bandsOrdered (TOFenabled (TOFcase sid en lo hi s))"
  using assms
  by (auto simp: bandsOrdered_iff TOFenabled_def TOFcase_def SetBitNumber_def ResetBitNumber_def)

lemma SetTOFSigmaCut_ordered: "bandsOrdered s \<Longrightarrow> bandsOrdered (snd (SetTOFSigmaCut sid v s))"
  by (simp add: SetTOFSigmaCut_def TOFstep_ordered)

lemmas setters_ordered = SetPMin_ordered SetPMax_ordered SetITSdEdxSigmaCut_ordered
  SetTPCdEdxSigmaCut_ordered SetTOFSigmaCut_ordered SetTPCTOFCut_ordered

lemma accepted_ordered: "bandsOrdered (snd r) \<Longrightarrow> bandsOrdered (snd (accepted descr k v r))"
  by (simp add: accepted_def UpdateCutsString_def bandsOrdered_frame)

lemma SetCutAndParams_ordered:
  assumes "bandsOrdered s"
  shows "bandsOrdered (snd (SetCutAndParams descr paramID v s))"
proof (cases "cutsParametersIds_of paramID")
  case None
  with assms show ?thesis by (simp add: SetCutAndParams_None)
next
  case (Some k)
  with assms show ?thesis
    by (cases k) (simp_all add: SetCutAndParams_def accepted_ordered setters_ordered)
qed

lemma configured_ordered: "configured s \<Longrightarrow> bandsOrdered s"
  by (induction rule: configured.induct) (simp_all add: bandsOrdered_new SetCutAndParams_ordered)

lemma configured_pionTPC: "configured pionTPC"
  unfolding pionTPC_def by (intro configured.intros)

subsection \<open>The band test\<close>

text \<open>
  C1. For a species with an enabled band in the table of a detector, the one-dimensional
  test passes for the target species iff nSigma is strictly inside the open interval of
  the two bounds, and for any other species iff nSigma is outside the closed interval of
  the two bounds. In every configuration that the constructor and \<^verbatim>\<open>SetCutAndParams\<close>
  can produce, the lower bound of an enabled band is below the upper one, and the two
  boundary values fail the test in both cases.
\<close>

theorem bandTest_inside_outside:
  assumes "TestBitNumber (EnabledSpeciesMask s d) sp"
  shows "(sp = fTargetSpecies s \<longrightarrow>
           bandTest s d sp x = (nSigmaBelow s d sp < x \<and> x < nSigmaAbove s d sp))
       \<and> (sp \<noteq> fTargetSpecies s \<longrightarrow>
           bandTest s d sp x = (x \<notin> {nSigmaBelow s d sp .. nSigmaAbove s d sp}))
       \<and> (configured s \<longrightarrow>
           nSigmaBelow s d sp < nSigmaAbove s d sp
           \<and> \<not> bandTest s d sp (nSigmaBelow s d sp) \<and> \<not> bandTest s d sp (nSigmaAbove s d sp))"
proof (intro conjI impI)
  assume "sp = fTargetSpecies s"
  with assms show "bandTest s d sp x = (nSigmaBelow s d sp < x \<and> x < nSigmaAbove s d sp)"
    by (simp add: bandTest_def)
next
  assume "sp \<noteq> fTargetSpecies s"
  with assms show "bandTest s d sp x = (x \<notin> {nSigmaBelow s d sp .. nSigmaAbove s d sp})"
    by (auto simp: bandTest_def)
next
  assume "configured s"
  then have "bandsOrdered s" by (rule configured_ordered)
  with assms show o: "nSigmaBelow s d sp < nSigmaAbove s d sp"
    by (simp add: bandsOrdered_def)
  from assms o show "\<not> bandTest s d sp (nSigmaBelow s d sp)"
    by (simp add: bandTest_def)
  from assms o show "\<not> bandTest s d sp (nSigmaAbove s d sp)"
    by (simp add: bandTest_def)
qed

theorem bandTest_inside_outside_witness:
  "TestBitNumber (EnabledSpeciesMask pionTPC TPC) kPion
   \<and> kPion = fTargetSpecies pionTPC
   \<and> configured pionTPC
   \<and> bandTest pionTPC TPC kPion 2.5
   \<and> \<not> bandTest pionTPC TPC kPion 3
   \<and> \<not> bandTest pionTPC TPC kPion (- 3)
   \<and> TestBitNumber (EnabledSpeciesMask pionTPC TPC) kKaon
   \<and> kKaon \<noteq> fTargetSpecies pionTPC
   \<and> bandTest pionTPC TPC kKaon 4.5
   \<and> \<not> bandTest pionTPC TPC kKaon 4
   \<and> \<not> bandTest pionTPC TPC kKaon (- 4)"
proof -
  have p: "TestBitNumber (EnabledSpeciesMask pionTPC TPC) kPion"
    and k: "TestBitNumber (EnabledSpeciesMask pionTPC TPC) kKaon"
    by (simp_all add: EnabledSpeciesMask_def pionTPC_fields TestBitNumber_def)
  from p k configured_pionTPC
    bandTest_inside_outside [OF p, of "2.5"] bandTest_inside_outside [OF k, of "4.5"]
  show ?thesis
    by (simp add: nSigmaBelow_def nSigmaAbove_def pionTPC_fields)
qed

end
